theory Spec2Isabelle
  imports Main "HOL-Library.Sublist"
begin

section \<open>The metered tool pipeline of the Wolfram knowledge engine\<close>

text \<open>
  The development embeds \<^verbatim>\<open>WolframApiClient\<close> (src/src/api-client.ts) and the two tool
  handlers that \<^verbatim>\<open>WolframKnowledgeEngineMCP.init\<close> registers (src/src/types.ts, after the type
  declarations).

  Strings are \<^typ>\<open>string\<close>; a \<^typ>\<open>char\<close> stands for one code unit in the range 0..255.
  A thrown JavaScript value is either an \<^verbatim>\<open>Error\<close> instance with its message or some
  other value, kept as its \<^verbatim>\<open>String(...)\<close> rendering. Every \<^verbatim>\<open>await\<close> is sequential, so
  an asynchronous function is a function from the state to a result and a new state,
  the result being \<open>Inl\<close> of the thrown value or \<open>Inr\<close> of the returned one.
  Console output is not part of the model.
\<close>

subsection \<open>Thrown values\<close>

datatype js_exn = JsError string | JsThrown string

text \<open>\<^verbatim>\<open>error instanceof Error ? error.message : String(error)\<close>\<close>

fun message_or_string :: "js_exn \<Rightarrow> string" where
  "message_or_string (JsError m) = m"
| "message_or_string (JsThrown v) = v"

text \<open>\<^verbatim>\<open>error instanceof Error ? error.message : 'Unknown error'\<close>\<close>

fun message_or_unknown :: "js_exn \<Rightarrow> string" where
  "message_or_unknown (JsError m) = m"
| "message_or_unknown (JsThrown v) = ''Unknown error''"

subsection \<open>Strings and numbers of the host language\<close>

text \<open>A string is truthy unless it is empty; a number is truthy unless it is zero.\<close>

definition truthy :: "string \<Rightarrow> bool" where
  "truthy s = (s \<noteq> [])"

definition digit_char :: "nat \<Rightarrow> char" where
  "digit_char d =
     (if d = 0 then CHR ''0'' else if d = 1 then CHR ''1'' else if d = 2 then CHR ''2''
      else if d = 3 then CHR ''3'' else if d = 4 then CHR ''4'' else if d = 5 then CHR ''5''
      else if d = 6 then CHR ''6'' else if d = 7 then CHR ''7'' else if d = 8 then CHR ''8''
      else CHR ''9'')"

text \<open>\<^verbatim>\<open>Number.prototype.toString\<close> on a non-negative integer: its decimal digits.\<close>

fun number_toString :: "nat \<Rightarrow> string" where
  "number_toString n =
     (if n < 10 then [digit_char n]
      else number_toString (n div 10) @ [digit_char (n mod 10)])"

text \<open>
  \<^verbatim>\<open>String.prototype.trim\<close> removes white space and line terminators from both ends;
  below 256 these are the code units 9 to 13, 32 and 160.
\<close>

definition js_whitespace :: "char \<Rightarrow> bool" where
  "js_whitespace c =
     (let n = (of_char c :: nat) in (9 \<le> n \<and> n \<le> 13) \<or> n = 32 \<or> n = 160)"

definition js_trim :: "string \<Rightarrow> string" where
  "js_trim s = rev (dropWhile js_whitespace (rev (dropWhile js_whitespace s)))"

subsection \<open>Data of the tools\<close>

datatype units = Metric | Imperial

fun units_string :: "units \<Rightarrow> string" where
  "units_string Metric = ''metric''"
| "units_string Imperial = ''imperial''"

text \<open>
  The \<^verbatim>\<open>input\<close> object given to the ledger: \<^verbatim>\<open>{ query, units }\<close> or
  \<^verbatim>\<open>{ query, maxchars }\<close>. The character limit is a natural number; the schema of the
  tool also admits fractions between 1000 and 10000, which are not modelled.
\<close>

datatype tool_input =
    QuickInput string "units option"
  | DetailedInput string "nat option"

datatype content_item = TextContent string

text \<open>A tool response; \<^verbatim>\<open>isError\<close> is optional and absent on the successful paths.\<close>

record tool_response =
  content :: "content_item list"
  isError :: "bool option"

text \<open>The authentication context; both it and its user identifier may be missing.\<close>

record props =
  userId :: "string option"

record balance_check =
  sufficient :: bool
  currentBalance :: int

record sanitize_opts =
  removeHtml :: bool
  removeControlChars :: bool
  normalizeWhitespace :: bool
  maxLength :: nat

record redact_opts =
  redactEmails :: bool
  redactPhones :: bool
  redactCreditCards :: bool
  redactSSN :: bool
  redactBankAccounts :: bool
  redactPESEL :: bool
  redactPolishIdCard :: bool
  redactPolishPassport :: bool
  redactPolishPhones :: bool
  placeholder :: string

text \<open>The eight arguments of \<^verbatim>\<open>consumeTokensWithRetry\<close> after the database handle.\<close>

record consume_args =
  arg_userId :: string
  arg_cost :: nat
  arg_serverName :: string
  arg_toolName :: string
  arg_input :: tool_input
  arg_output :: string
  arg_success :: bool
  arg_actionId :: string

record http_request =
  req_url :: string
  req_params :: "(string \<times> string) list"
  req_method :: string
  req_headers :: "(string \<times> string) list"

text \<open>A response of \<^verbatim>\<open>fetch\<close>; reading the body with \<^verbatim>\<open>text()\<close> may itself reject.\<close>

record http_response =
  status :: nat
  statusText :: string
  body :: "js_exn + string"

definition response_ok :: "http_response \<Rightarrow> bool" where
  "response_ok r = (200 \<le> status r \<and> status r \<le> 299)"

subsection \<open>Effects\<close>

text \<open>Every call that leaves the handler is recorded, in the order in which it happens.\<close>

datatype event =
    EvRandomUUID string
  | EvCacheGet string
  | EvCheckBalance string nat
  | EvFetch http_request
  | EvSanitize string sanitize_opts
  | EvRedact string redact_opts
  | EvConsume consume_args
  | EvCachePut string string nat

text \<open>
  The state: the cache namespace \<^verbatim>\<open>CACHE_KV\<close> (each key with its value and the
  \<^verbatim>\<open>expirationTtl\<close> it was written with; an expired entry is an absent one), the token
  database \<^verbatim>\<open>TOKEN_DB\<close>, the number of identifiers drawn so far, and the trace.
\<close>

record 'db state =
  kv :: "string \<rightharpoonup> (string \<times> nat)"
  db :: 'db
  uuid_count :: nat
  trace :: "event list"

text \<open>
  The collaborators whose code is not part of the sources are parameters: the
  storage layer of the cache (which may fail on a read or a write), \<^verbatim>\<open>fetch\<close>, the token
  ledger (\<^verbatim>\<open>checkBalance\<close>, \<^verbatim>\<open>consumeTokensWithRetry\<close>, \<^verbatim>\<open>formatInsufficientTokensError\<close>),
  the security library (\<^verbatim>\<open>sanitizeOutput\<close>, \<^verbatim>\<open>redactPII\<close>) and \<^verbatim>\<open>crypto.randomUUID\<close>.
  The storage layer, \<^verbatim>\<open>fetch\<close>, the two ledger operations and the two security functions
  may throw; \<^verbatim>\<open>formatInsufficientTokensError\<close> and \<^verbatim>\<open>crypto.randomUUID\<close> return a string.
  The ledger operations read and change the token database only; \<^verbatim>\<open>randomUUID\<close> gives the
  identifier drawn at each count.
\<close>

record 'db world =
  WOLFRAM_APPID :: string
  kv_get_fault :: "string \<Rightarrow> js_exn option"
  kv_put_fault :: "string \<Rightarrow> string \<Rightarrow> js_exn option"
  fetch :: "http_request \<Rightarrow> js_exn + http_response"
  checkBalance :: "'db \<Rightarrow> string \<Rightarrow> nat \<Rightarrow> js_exn + balance_check"
  consumeTokensWithRetry :: "'db \<Rightarrow> consume_args \<Rightarrow> js_exn option \<times> 'db"
  formatInsufficientTokensError :: "string \<Rightarrow> int \<Rightarrow> nat \<Rightarrow> string"
  sanitizeOutput :: "string \<Rightarrow> sanitize_opts \<Rightarrow> js_exn + string"
  redactPII :: "string \<Rightarrow> redact_opts \<Rightarrow> js_exn + (string \<times> string list)"
  randomUUID :: "nat \<Rightarrow> string"

type_synonym ('db, 'a) eff = "'db state \<Rightarrow> (js_exn + 'a) \<times> 'db state"

definition succeed :: "'a \<Rightarrow> ('db, 'a) eff" where
  "succeed x = (\<lambda>s. (Inr x, s))"

definition throw :: "js_exn \<Rightarrow> ('db, 'a) eff" where
  "throw e = (\<lambda>s. (Inl e, s))"

definition bindE :: "('db, 'a) eff \<Rightarrow> ('a \<Rightarrow> ('db, 'b) eff) \<Rightarrow> ('db, 'b) eff" where
  "bindE m f = (\<lambda>s. case m s of (Inl e, s') \<Rightarrow> (Inl e, s') | (Inr x, s') \<Rightarrow> f x s')"

text \<open>\<^verbatim>\<open>try { m } catch (error) { h error }\<close>\<close>

definition catchE :: "('db, 'a) eff \<Rightarrow> (js_exn \<Rightarrow> ('db, 'a) eff) \<Rightarrow> ('db, 'a) eff" where
  "catchE m h = (\<lambda>s. case m s of (Inl e, s') \<Rightarrow> h e s' | (Inr x, s') \<Rightarrow> (Inr x, s'))"

definition emit :: "event \<Rightarrow> ('db, unit) eff" where
  "emit ev = (\<lambda>s. (Inr (), s\<lparr>trace := trace s @ [ev]\<rparr>))"

definition of_result :: "js_exn + 'a \<Rightarrow> ('db, 'a) eff" where
  "of_result r = (\<lambda>s. (r, s))"

subsection \<open>The collaborators as effects\<close>

definition crypto_randomUUID :: "'db world \<Rightarrow> ('db, string) eff" where
  "crypto_randomUUID w =
     (\<lambda>s. let u = randomUUID w (uuid_count s)
          in (Inr u, s\<lparr>uuid_count := Suc (uuid_count s), trace := trace s @ [EvRandomUUID u]\<rparr>))"

definition cacheKV_get :: "'db world \<Rightarrow> string \<Rightarrow> ('db, string option) eff" where
  "cacheKV_get w k =
     bindE (emit (EvCacheGet k)) (\<lambda>_ s.
       case kv_get_fault w k of
         Some e \<Rightarrow> (Inl e, s)
       | None \<Rightarrow> (Inr (map_option fst (kv s k)), s))"

definition cacheKV_put :: "'db world \<Rightarrow> string \<Rightarrow> string \<Rightarrow> nat \<Rightarrow> ('db, unit) eff" where
  "cacheKV_put w k v ttl =
     bindE (emit (EvCachePut k v ttl)) (\<lambda>_ s.
       case kv_put_fault w k v of
         Some e \<Rightarrow> (Inl e, s)
       | None \<Rightarrow> (Inr (), s\<lparr>kv := (kv s)(k \<mapsto> (v, ttl))\<rparr>))"

definition do_fetch :: "'db world \<Rightarrow> http_request \<Rightarrow> ('db, http_response) eff" where
  "do_fetch w r = bindE (emit (EvFetch r)) (\<lambda>_. of_result (fetch w r))"

definition do_checkBalance :: "'db world \<Rightarrow> string \<Rightarrow> nat \<Rightarrow> ('db, balance_check) eff" where
  "do_checkBalance w uid cost =
     bindE (emit (EvCheckBalance uid cost)) (\<lambda>_ s. (checkBalance w (db s) uid cost, s))"

definition do_consumeTokensWithRetry :: "'db world \<Rightarrow> consume_args \<Rightarrow> ('db, unit) eff" where
  "do_consumeTokensWithRetry w a =
     bindE (emit (EvConsume a)) (\<lambda>_ s.
       case consumeTokensWithRetry w (db s) a of
         (Some e, d) \<Rightarrow> (Inl e, s\<lparr>db := d\<rparr>)
       | (None, d) \<Rightarrow> (Inr (), s\<lparr>db := d\<rparr>))"

definition do_sanitizeOutput :: "'db world \<Rightarrow> string \<Rightarrow> sanitize_opts \<Rightarrow> ('db, string) eff" where
  "do_sanitizeOutput w t opts =
     bindE (emit (EvSanitize t opts)) (\<lambda>_. of_result (sanitizeOutput w t opts))"

definition do_redactPII ::
  "'db world \<Rightarrow> string \<Rightarrow> redact_opts \<Rightarrow> ('db, string \<times> string list) eff" where
  "do_redactPII w t opts =
     bindE (emit (EvRedact t opts)) (\<lambda>_. of_result (redactPII w t opts))"

subsection \<open>The query client\<close>

text \<open>\<^verbatim>\<open>url.searchParams.set(name, value)\<close>\<close>

definition searchParams_set ::
  "string \<Rightarrow> string \<Rightarrow> (string \<times> string) list \<Rightarrow> (string \<times> string) list" where
  "searchParams_set k v ps =
     (if k \<in> fst ` set ps
      then takeWhile (\<lambda>p. fst p \<noteq> k) ps @ [(k, v)] @
           filter (\<lambda>p. fst p \<noteq> k) (tl (dropWhile (\<lambda>p. fst p \<noteq> k) ps))
      else ps @ [(k, v)])"

definition client_request :: "string \<Rightarrow> (string \<times> string) list \<Rightarrow> http_request" where
  "client_request u ps =
     \<lparr>req_url = u, req_params = ps, req_method = ''GET'',
      req_headers = [(''User-Agent'', ''Cloudflare-Workers/WolframMCP'')]\<rparr>"

definition uninterpretable_msg :: string where
  "uninterpretable_msg =
     ''WolframAlpha could not interpret the query. Please rephrase or check spelling.''"

definition invalid_format_msg :: string where
  "invalid_format_msg = ''Invalid query format. Please check your input.''"

definition invalid_appid_msg :: string where
  "invalid_appid_msg = ''Invalid WolframAlpha AppID. Please check configuration.''"

definition api_error_msg :: "http_response \<Rightarrow> string" where
  "api_error_msg r =
     ''WolframAlpha API error: '' @ number_toString (status r) @ '' '' @ statusText r"

text \<open>The URL built at the head of each client method, with the request options.\<close>

definition quickAnswer_request :: "'db world \<Rightarrow> string \<Rightarrow> string option \<Rightarrow> http_request" where
  "quickAnswer_request w query units =
     (let ps0 = searchParams_set ''i'' query (searchParams_set ''appid'' (WOLFRAM_APPID w) []);
          ps = (case units of
                  Some u \<Rightarrow> if truthy u then searchParams_set ''units'' u ps0 else ps0
                | None \<Rightarrow> ps0)
      in client_request ''http://api.wolframalpha.com/v1/result'' ps)"

definition detailedAnalysis_request :: "'db world \<Rightarrow> string \<Rightarrow> nat option \<Rightarrow> http_request" where
  "detailedAnalysis_request w query maxchars =
     (let ps0 = searchParams_set ''input'' query (searchParams_set ''appid'' (WOLFRAM_APPID w) []);
          ps = (case maxchars of
                  Some m \<Rightarrow> if m \<noteq> 0 then searchParams_set ''maxchars'' (number_toString m) ps0
                            else ps0
                | None \<Rightarrow> ps0)
      in client_request ''https://www.wolframalpha.com/api/v1/llm-api'' ps)"

definition getQuickAnswer :: "'db world \<Rightarrow> string \<Rightarrow> string option \<Rightarrow> ('db, string) eff" where
  "getQuickAnswer w query units =
     catchE
       (bindE (do_fetch w (quickAnswer_request w query units))
          (\<lambda>response.
             if status response = 501 then throw (JsError uninterpretable_msg)
             else if status response = 400 then throw (JsError invalid_format_msg)
             else if status response = 403 then throw (JsError invalid_appid_msg)
             else if \<not> response_ok response then throw (JsError (api_error_msg response))
             else bindE (of_result (body response)) (\<lambda>answer. succeed (js_trim answer))))
       (\<lambda>error. throw (JsError (''Failed to get quick answer: '' @ message_or_unknown error)))"

definition getDetailedAnalysis :: "'db world \<Rightarrow> string \<Rightarrow> nat option \<Rightarrow> ('db, string) eff" where
  "getDetailedAnalysis w query maxchars =
     catchE
       (bindE (do_fetch w (detailedAnalysis_request w query maxchars))
          (\<lambda>response.
             if status response = 501 then
               bindE (of_result (body response)) (\<lambda>errorBody.
                 throw (JsError (''WolframAlpha could not interpret the query. '' @
                   (if truthy errorBody then ''Suggestions: '' @ errorBody
                    else ''Please rephrase.''))))
             else if status response = 400 then throw (JsError invalid_format_msg)
             else if status response = 403 then throw (JsError invalid_appid_msg)
             else if \<not> response_ok response then throw (JsError (api_error_msg response))
             else bindE (of_result (body response))
                    (\<lambda>detailedResult. succeed (js_trim detailedResult))))
       (\<lambda>error. throw (JsError (''Failed to get detailed analysis: '' @
                                  message_or_unknown error)))"

text \<open>\<^verbatim>\<open>`wolfram:${toolName}:${query}`\<close>\<close>

definition getCacheKey :: "string \<Rightarrow> string \<Rightarrow> string" where
  "getCacheKey toolName query = ''wolfram:'' @ toolName @ '':'' @ query"

definition checkCache :: "'db world \<Rightarrow> string \<Rightarrow> ('db, string option) eff" where
  "checkCache w cacheKey =
     catchE
       (bindE (cacheKV_get w cacheKey) (\<lambda>cached.
          case cached of
            Some c \<Rightarrow> if truthy c then succeed (Some c) else succeed None
          | None \<Rightarrow> succeed None))
       (\<lambda>error. succeed None)"

definition storeCache :: "'db world \<Rightarrow> string \<Rightarrow> string \<Rightarrow> ('db, unit) eff" where
  "storeCache w cacheKey result =
     catchE (cacheKV_put w cacheKey result 900) (\<lambda>error. succeed ())"

subsection \<open>The tool handlers\<close>

text \<open>\<^verbatim>\<open>this.props?.userId\<close> followed by the check \<^verbatim>\<open>if (!userId) throw ...\<close>\<close>

definition resolve_userId :: "props option \<Rightarrow> ('db, string) eff" where
  "resolve_userId p =
     (case (case p of Some q \<Rightarrow> userId q | None \<Rightarrow> None) of
        Some u \<Rightarrow>
          if truthy u then succeed u
          else throw (JsError ''User ID not found in authentication context'')
      | None \<Rightarrow> throw (JsError ''User ID not found in authentication context''))"

text \<open>\<^verbatim>\<open>units || ""\<close> and \<^verbatim>\<open>maxchars || ""\<close>, as they are appended to the query.\<close>

definition units_or_empty :: "units option \<Rightarrow> string" where
  "units_or_empty units =
     (case units of
        Some u \<Rightarrow> if truthy (units_string u) then units_string u else []
      | None \<Rightarrow> [])"

definition maxchars_or_empty :: "nat option \<Rightarrow> string" where
  "maxchars_or_empty maxchars =
     (case maxchars of
        Some m \<Rightarrow> if m \<noteq> 0 then number_toString m else []
      | None \<Rightarrow> [])"

text \<open>\<^verbatim>\<open>maxchars || 6800\<close>\<close>

definition maxchars_or_default :: "nat option \<Rightarrow> nat" where
  "maxchars_or_default maxchars =
     (case maxchars of Some m \<Rightarrow> if m \<noteq> 0 then m else 6800 | None \<Rightarrow> 6800)"

definition redact_options :: redact_opts where
  "redact_options =
     \<lparr>redactEmails = False, redactPhones = True, redactCreditCards = True, redactSSN = True,
      redactBankAccounts = True, redactPESEL = True, redactPolishIdCard = True,
      redactPolishPassport = True, redactPolishPhones = True, placeholder = ''[REDACTED]''\<rparr>"

definition cached_result :: "string \<Rightarrow> tool_response" where
  "cached_result c =
     \<lparr>content = [TextContent (''[Cached Result]'' @ [CHR 0x0A, CHR 0x0A] @ c)],
      isError = None\<rparr>"

definition text_result :: "string \<Rightarrow> tool_response" where
  "text_result t = \<lparr>content = [TextContent t], isError = None\<rparr>"

definition error_text_result :: "string \<Rightarrow> tool_response" where
  "error_text_result t = \<lparr>content = [TextContent t], isError = Some True\<rparr>"

definition caught_result :: "js_exn \<Rightarrow> tool_response" where
  "caught_result error = error_text_result (''Error: '' @ message_or_string error)"

definition getQuickAnswer_tool ::
  "'db world \<Rightarrow> props option \<Rightarrow> string \<Rightarrow> units option \<Rightarrow> ('db, tool_response) eff" where
  "getQuickAnswer_tool w this_props query units =
     (let TOOL_COST = 2; TOOL_NAME = ''getQuickAnswer'' in
      bindE (crypto_randomUUID w) (\<lambda>actionId.
      catchE
        (bindE (resolve_userId this_props) (\<lambda>userId.
         let cacheKey = getCacheKey TOOL_NAME (query @ units_or_empty units) in
         bindE (checkCache w cacheKey) (\<lambda>cachedResult.
         case (case cachedResult of Some c \<Rightarrow> if truthy c then Some c else None
                                  | None \<Rightarrow> None) of
           Some c \<Rightarrow> succeed (cached_result c)
         | None \<Rightarrow>
         bindE (do_checkBalance w userId TOOL_COST) (\<lambda>balanceCheck.
         if \<not> sufficient balanceCheck then
           succeed (error_text_result
             (formatInsufficientTokensError w TOOL_NAME (currentBalance balanceCheck) TOOL_COST))
         else
         bindE (getQuickAnswer w query (map_option units_string units)) (\<lambda>result.
         bindE (do_sanitizeOutput w result
                  \<lparr>removeHtml = True, removeControlChars = True,
                   normalizeWhitespace = True, maxLength = 5000\<rparr>) (\<lambda>sanitized.
         bindE (do_redactPII w sanitized redact_options) (\<lambda>(redacted, detectedPII).
         let finalResult = redacted in
         bindE (do_consumeTokensWithRetry w
                  \<lparr>arg_userId = userId, arg_cost = TOOL_COST,
                   arg_serverName = ''knowledge-engine'', arg_toolName = TOOL_NAME,
                   arg_input = QuickInput query units, arg_output = finalResult,
                   arg_success = True, arg_actionId = actionId\<rparr>) (\<lambda>_.
         bindE (storeCache w cacheKey finalResult) (\<lambda>_.
         succeed (text_result finalResult))))))))))
        (\<lambda>error. succeed (caught_result error))))"

definition getDetailedAnalysis_tool ::
  "'db world \<Rightarrow> props option \<Rightarrow> string \<Rightarrow> nat option \<Rightarrow> ('db, tool_response) eff" where
  "getDetailedAnalysis_tool w this_props query maxchars =
     (let TOOL_COST = 4; TOOL_NAME = ''getDetailedAnalysis'' in
      bindE (crypto_randomUUID w) (\<lambda>actionId.
      catchE
        (bindE (resolve_userId this_props) (\<lambda>userId.
         let cacheKey = getCacheKey TOOL_NAME (query @ maxchars_or_empty maxchars) in
         bindE (checkCache w cacheKey) (\<lambda>cachedResult.
         case (case cachedResult of Some c \<Rightarrow> if truthy c then Some c else None
                                  | None \<Rightarrow> None) of
           Some c \<Rightarrow> succeed (cached_result c)
         | None \<Rightarrow>
         bindE (do_checkBalance w userId TOOL_COST) (\<lambda>balanceCheck.
         if \<not> sufficient balanceCheck then
           succeed (error_text_result
             (formatInsufficientTokensError w TOOL_NAME (currentBalance balanceCheck) TOOL_COST))
         else
         bindE (getDetailedAnalysis w query maxchars) (\<lambda>result.
         bindE (do_sanitizeOutput w result
                  \<lparr>removeHtml = True, removeControlChars = True,
                   normalizeWhitespace = True,
                   maxLength = maxchars_or_default maxchars\<rparr>) (\<lambda>sanitized.
         bindE (do_redactPII w sanitized redact_options) (\<lambda>(redacted, detectedPII).
         let finalResult = redacted in
         bindE (do_consumeTokensWithRetry w
                  \<lparr>arg_userId = userId, arg_cost = TOOL_COST,
                   arg_serverName = ''knowledge-engine'', arg_toolName = TOOL_NAME,
                   arg_input = DetailedInput query maxchars, arg_output = finalResult,
                   arg_success = True, arg_actionId = actionId\<rparr>) (\<lambda>_.
         bindE (storeCache w cacheKey finalResult) (\<lambda>_.
         succeed (text_result finalResult))))))))))
        (\<lambda>error. succeed (caught_result error))))"

subsection \<open>Vocabulary for the properties\<close>

text \<open>
  A tool invocation as the transport delivers it: the tool and its validated arguments.
  The functions below name what the properties speak about: the cost, the name and the
  cache key of a call, the request it sends, and so on. A property refers to the outcome
  of the cache lookup and of the client by their results in the state in which the
  invocation starts; neither result depends on the part of the state that changes before
  the handler reaches them (the trace and the count of identifiers).
\<close>

datatype tool_call =
    QuickAnswerCall string "units option"
  | DetailedAnalysisCall string "nat option"

fun invoke :: "'db world \<Rightarrow> props option \<Rightarrow> tool_call \<Rightarrow> ('db, tool_response) eff" where
  "invoke w p (QuickAnswerCall q u) = getQuickAnswer_tool w p q u"
| "invoke w p (DetailedAnalysisCall q m) = getDetailedAnalysis_tool w p q m"

fun tool_name :: "tool_call \<Rightarrow> string" where
  "tool_name (QuickAnswerCall q u) = ''getQuickAnswer''"
| "tool_name (DetailedAnalysisCall q m) = ''getDetailedAnalysis''"

fun tool_cost :: "tool_call \<Rightarrow> nat" where
  "tool_cost (QuickAnswerCall q u) = 2"
| "tool_cost (DetailedAnalysisCall q m) = 4"

fun canonical_query :: "tool_call \<Rightarrow> string" where
  "canonical_query (QuickAnswerCall q u) = q @ units_or_empty u"
| "canonical_query (DetailedAnalysisCall q m) = q @ maxchars_or_empty m"

definition cache_key :: "tool_call \<Rightarrow> string" where
  "cache_key c = getCacheKey (tool_name c) (canonical_query c)"

fun input_of :: "tool_call \<Rightarrow> tool_input" where
  "input_of (QuickAnswerCall q u) = QuickInput q u"
| "input_of (DetailedAnalysisCall q m) = DetailedInput q m"

fun upstream_request :: "'db world \<Rightarrow> tool_call \<Rightarrow> http_request" where
  "upstream_request w (QuickAnswerCall q u) = quickAnswer_request w q (map_option units_string u)"
| "upstream_request w (DetailedAnalysisCall q m) = detailedAnalysis_request w q m"

fun sanitize_options :: "tool_call \<Rightarrow> sanitize_opts" where
  "sanitize_options (QuickAnswerCall q u) =
     \<lparr>removeHtml = True, removeControlChars = True, normalizeWhitespace = True,
      maxLength = 5000\<rparr>"
| "sanitize_options (DetailedAnalysisCall q m) =
     \<lparr>removeHtml = True, removeControlChars = True, normalizeWhitespace = True,
      maxLength = maxchars_or_default m\<rparr>"

fun client_call :: "'db world \<Rightarrow> tool_call \<Rightarrow> ('db, string) eff" where
  "client_call w (QuickAnswerCall q u) = getQuickAnswer w q (map_option units_string u)"
| "client_call w (DetailedAnalysisCall q m) = getDetailedAnalysis w q m"

text \<open>The identifier that \<^verbatim>\<open>crypto.randomUUID()\<close> yields in a state.\<close>

definition next_uuid :: "'db world \<Rightarrow> 'db state \<Rightarrow> string" where
  "next_uuid w s = randomUUID w (uuid_count s)"

text \<open>An authentication context whose user identifier passes the check of step 1.\<close>

definition authenticated :: "props option \<Rightarrow> string \<Rightarrow> bool" where
  "authenticated p uid =
     (case p of Some q \<Rightarrow> userId q = Some uid \<and> truthy uid | None \<Rightarrow> False)"

text \<open>The arguments of the charge, as the handlers assemble them.\<close>

definition charge_args :: "tool_call \<Rightarrow> string \<Rightarrow> string \<Rightarrow> string \<Rightarrow> consume_args" where
  "charge_args c uid out aid =
     \<lparr>arg_userId = uid, arg_cost = tool_cost c, arg_serverName = ''knowledge-engine'',
      arg_toolName = tool_name c, arg_input = input_of c, arg_output = out,
      arg_success = True, arg_actionId = aid\<rparr>"

text \<open>The events an invocation adds to the trace.\<close>

definition new_events :: "'db state \<Rightarrow> 'db state \<Rightarrow> event list" where
  "new_events s s' = drop (length (trace s)) (trace s')"

subsection \<open>The steps of the pipeline\<close>

datatype step =
    GenerateActionId | CacheLookup | BalanceCheck | ExternalCall
  | Sanitize | Redact | Charge | CacheStore

fun step_of :: "event \<Rightarrow> step" where
  "step_of (EvRandomUUID u) = GenerateActionId"
| "step_of (EvCacheGet k) = CacheLookup"
| "step_of (EvCheckBalance u n) = BalanceCheck"
| "step_of (EvFetch r) = ExternalCall"
| "step_of (EvSanitize t opts) = Sanitize"
| "step_of (EvRedact t opts) = Redact"
| "step_of (EvConsume a) = Charge"
| "step_of (EvCachePut k v ttl) = CacheStore"

definition pipeline_order :: "step list" where
  "pipeline_order =
     [GenerateActionId, CacheLookup, BalanceCheck, ExternalCall,
      Sanitize, Redact, Charge, CacheStore]"

subsection \<open>A concrete environment\<close>

text \<open>
  An environment for running the handlers on concrete inputs: the token database is one
  balance, the query service answers every request with a given result, the sanitizer is
  the identity, and the redactor knows one card number. The write to the cache fails
  when a fault is given.
\<close>

definition demo_card :: string where
  "demo_card = ''4532-1111-2222-3333''"

definition demo_redact :: "string \<Rightarrow> redact_opts \<Rightarrow> js_exn + (string \<times> string list)" where
  "demo_redact t opts =
     (if redactCreditCards opts \<and> t = ''Card: 4532-1111-2222-3333''
      then Inr (''Card: '' @ placeholder opts, [''creditCard''])
      else Inr (t, []))"

definition ok_response :: "string \<Rightarrow> js_exn + http_response" where
  "ok_response answer = Inr \<lparr>status = 200, statusText = ''OK'', body = Inr answer\<rparr>"

definition demo_world :: "js_exn + http_response \<Rightarrow> js_exn option \<Rightarrow> int world" where
  "demo_world upstream put_fault =
     \<lparr>WOLFRAM_APPID = ''DEMO-APPID'',
      kv_get_fault = (\<lambda>k. None),
      kv_put_fault = (\<lambda>k v. put_fault),
      fetch = (\<lambda>r. upstream),
      checkBalance = (\<lambda>d uid cost. Inr \<lparr>sufficient = (int cost \<le> d), currentBalance = d\<rparr>),
      consumeTokensWithRetry = (\<lambda>d a. (None, d - int (arg_cost a))),
      formatInsufficientTokensError = (\<lambda>name bal cost. ''Insufficient tokens for '' @ name),
      sanitizeOutput = (\<lambda>t opts. Inr t),
      redactPII = demo_redact,
      randomUUID = (\<lambda>n. ''action-'' @ number_toString n)\<rparr>"

definition demo_state :: "(string \<rightharpoonup> (string \<times> nat)) \<Rightarrow> int \<Rightarrow> int state" where
  "demo_state m bal = \<lparr>kv = m, db = bal, uuid_count = 0, trace = []\<rparr>"

definition demo_props :: "props option" where
  "demo_props = Some \<lparr>userId = Some ''user-1''\<rparr>"

definition demo_call :: tool_call where
  "demo_call = QuickAnswerCall ''distance from LA to NY'' (Some Metric)"

section \<open>Auxiliary facts: running the effects\<close>

lemmas eff_defs = succeed_def throw_def bindE_def catchE_def emit_def of_result_def

lemma checkCache_run:
  "checkCache w k s =
     (Inr (case kv_get_fault w k of Some e \<Rightarrow> None
           | None \<Rightarrow> (case kv s k of Some (c, t) \<Rightarrow> if c \<noteq> [] then Some c else None | None \<Rightarrow> None)),
      s\<lparr>trace := trace s @ [EvCacheGet k]\<rparr>)"
  by (simp add: checkCache_def cacheKV_get_def eff_defs truthy_def split: option.splits prod.splits)

lemma storeCache_run:
  "storeCache w k v s =
     (Inr (), (case kv_put_fault w k v of Some e \<Rightarrow> s\<lparr>trace := trace s @ [EvCachePut k v 900]\<rparr>
               | None \<Rightarrow> s\<lparr>kv := (kv s)(k \<mapsto> (v, 900)), trace := trace s @ [EvCachePut k v 900]\<rparr>))"
  by (simp add: storeCache_def cacheKV_put_def eff_defs split: option.splits prod.splits)

lemma getQuickAnswer_run:
  "getQuickAnswer w q u s = (fst (getQuickAnswer w q u s0), s\<lparr>trace := trace s @ [EvFetch (quickAnswer_request w q u)]\<rparr>)"
  by (simp add: getQuickAnswer_def do_fetch_def eff_defs split: sum.splits prod.splits)

lemma getDetailedAnalysis_run:
  "getDetailedAnalysis w q m s = (fst (getDetailedAnalysis w q m s0), s\<lparr>trace := trace s @ [EvFetch (detailedAnalysis_request w q m)]\<rparr>)"
  by (simp add: getDetailedAnalysis_def do_fetch_def eff_defs split: sum.splits prod.splits)

lemma client_call_run:
  "client_call w c s = (fst (client_call w c s0), s\<lparr>trace := trace s @ [EvFetch (upstream_request w c)]\<rparr>)"
  by (cases c) (simp_all add: getQuickAnswer_run [where s=s and ?s0.0=s0] getDetailedAnalysis_run [where s=s and ?s0.0=s0])

text \<open>The two handlers follow one pipeline; each stage is run from the state the previous one left.\<close>

lemma invoke_split:
  "invoke w p c s =
    (let aid = next_uuid w s;
         s0 = s\<lparr>uuid_count := Suc (uuid_count s), trace := trace s @ [EvRandomUUID aid]\<rparr>
     in case resolve_userId p s0 of
          (Inl e, s1) \<Rightarrow> (Inr (caught_result e), s1)
        | (Inr uid, s1) \<Rightarrow>
           (case checkCache w (cache_key c) s1 of
              (Inr (Some cached), s2) \<Rightarrow> (Inr (cached_result cached), s2)
            | (Inr None, s2) \<Rightarrow>
               (case do_checkBalance w uid (tool_cost c) s2 of
                  (Inl e, s3) \<Rightarrow> (Inr (caught_result e), s3)
                | (Inr bc, s3) \<Rightarrow>
                   if \<not> sufficient bc then
                     (Inr (error_text_result (formatInsufficientTokensError w (tool_name c) (currentBalance bc) (tool_cost c))), s3)
                   else
                   (case client_call w c s3 of
                      (Inl e, s4) \<Rightarrow> (Inr (caught_result e), s4)
                    | (Inr raw, s4) \<Rightarrow>
                       (case do_sanitizeOutput w raw (sanitize_options c) s4 of
                          (Inl e, s5) \<Rightarrow> (Inr (caught_result e), s5)
                        | (Inr san, s5) \<Rightarrow>
                           (case do_redactPII w san redact_options s5 of
                              (Inl e, s6) \<Rightarrow> (Inr (caught_result e), s6)
                            | (Inr (fin, pii), s6) \<Rightarrow>
                               (case do_consumeTokensWithRetry w (charge_args c uid fin aid) s6 of
                                  (Inl e, s7) \<Rightarrow> (Inr (caught_result e), s7)
                                | (Inr u, s7) \<Rightarrow>
                                   (Inr (text_result fin), snd (storeCache w (cache_key c) fin s7)))))))
            | (Inl e, s2) \<Rightarrow> (Inr (caught_result e), s2)))"
  apply (cases c)
   apply (simp_all add: getQuickAnswer_tool_def getDetailedAnalysis_tool_def Let_def cache_key_def charge_args_def
      next_uuid_def crypto_randomUUID_def eff_defs checkCache_run storeCache_run truthy_def split: sum.splits prod.splits option.splits)
  done

lemma resolve_userId_run:
  "resolve_userId p s =
     ((case (case p of Some q \<Rightarrow> userId q | None \<Rightarrow> None) of
         Some u \<Rightarrow> if truthy u then Inr u
                   else Inl (JsError ''User ID not found in authentication context'')
       | None \<Rightarrow> Inl (JsError ''User ID not found in authentication context'')), s)"
  by (simp add: resolve_userId_def eff_defs split: option.splits)

lemma do_checkBalance_run:
  "do_checkBalance w uid cost s =
     (checkBalance w (db s) uid cost, s\<lparr>trace := trace s @ [EvCheckBalance uid cost]\<rparr>)"
  by (simp add: do_checkBalance_def eff_defs)

lemma do_sanitizeOutput_run:
  "do_sanitizeOutput w t opts s =
     (sanitizeOutput w t opts, s\<lparr>trace := trace s @ [EvSanitize t opts]\<rparr>)"
  by (simp add: do_sanitizeOutput_def eff_defs)

lemma do_redactPII_run:
  "do_redactPII w t opts s =
     (redactPII w t opts, s\<lparr>trace := trace s @ [EvRedact t opts]\<rparr>)"
  by (simp add: do_redactPII_def eff_defs)

lemma do_consumeTokensWithRetry_run:
  "do_consumeTokensWithRetry w a s =
     ((case fst (consumeTokensWithRetry w (db s) a) of Some e \<Rightarrow> Inl e | None \<Rightarrow> Inr ()),
      s\<lparr>db := snd (consumeTokensWithRetry w (db s) a), trace := trace s @ [EvConsume a]\<rparr>)"
  by (simp add: do_consumeTokensWithRetry_def eff_defs split: option.splits prod.splits)

lemma invoke_run:
  "invoke w p c s =
    (let aid = next_uuid w s; key = cache_key c; cost = tool_cost c;
         n = Suc (uuid_count s); t0 = trace s @ [EvRandomUUID aid];
         auth_error = JsError ''User ID not found in authentication context''
     in case (case p of Some q \<Rightarrow> userId q | None \<Rightarrow> None) of
          None \<Rightarrow> (Inr (caught_result auth_error), s\<lparr>uuid_count := n, trace := t0\<rparr>)
        | Some uid \<Rightarrow>
           if \<not> truthy uid then (Inr (caught_result auth_error), s\<lparr>uuid_count := n, trace := t0\<rparr>)
           else
           let t1 = t0 @ [EvCacheGet key] in
           (case fst (checkCache w key s) of
              Inl e \<Rightarrow> (Inr (caught_result e), s\<lparr>uuid_count := n, trace := t1\<rparr>)
            | Inr (Some cached) \<Rightarrow> (Inr (cached_result cached), s\<lparr>uuid_count := n, trace := t1\<rparr>)
            | Inr None \<Rightarrow>
               let t2 = t1 @ [EvCheckBalance uid cost] in
               (case checkBalance w (db s) uid cost of
                  Inl e \<Rightarrow> (Inr (caught_result e), s\<lparr>uuid_count := n, trace := t2\<rparr>)
                | Inr bc \<Rightarrow>
                   if \<not> sufficient bc then
                     (Inr (error_text_result (formatInsufficientTokensError w (tool_name c)
                                                (currentBalance bc) cost)),
                      s\<lparr>uuid_count := n, trace := t2\<rparr>)
                   else
                   let t3 = t2 @ [EvFetch (upstream_request w c)] in
                   (case fst (client_call w c s) of
                      Inl e \<Rightarrow> (Inr (caught_result e), s\<lparr>uuid_count := n, trace := t3\<rparr>)
                    | Inr raw \<Rightarrow>
                       let t4 = t3 @ [EvSanitize raw (sanitize_options c)] in
                       (case sanitizeOutput w raw (sanitize_options c) of
                          Inl e \<Rightarrow> (Inr (caught_result e), s\<lparr>uuid_count := n, trace := t4\<rparr>)
                        | Inr san \<Rightarrow>
                           let t5 = t4 @ [EvRedact san redact_options] in
                           (case redactPII w san redact_options of
                              Inl e \<Rightarrow> (Inr (caught_result e), s\<lparr>uuid_count := n, trace := t5\<rparr>)
                            | Inr (fin, pii) \<Rightarrow>
                               let a = charge_args c uid fin aid;
                                   t6 = t5 @ [EvConsume a];
                                   d = snd (consumeTokensWithRetry w (db s) a) in
                               (case fst (consumeTokensWithRetry w (db s) a) of
                                  Some e \<Rightarrow>
                                    (Inr (caught_result e),
                                     s\<lparr>db := d, uuid_count := n, trace := t6\<rparr>)
                                | None \<Rightarrow>
                                    (Inr (text_result fin),
                                     s\<lparr>kv := (case kv_put_fault w key fin of
                                                  Some e \<Rightarrow> kv s
                                                | None \<Rightarrow> (kv s)(key \<mapsto> (fin, 900))),
                                       db := d, uuid_count := n,
                                       trace := t6 @ [EvCachePut key fin 900]\<rparr>))))))))"
proof -
  define r where "r = fst (client_call w c s)"
  have cc: "\<And>s'. client_call w c s' = (r, s'\<lparr>trace := trace s' @ [EvFetch (upstream_request w c)]\<rparr>)"
    unfolding r_def by (rule client_call_run)
  show ?thesis
    unfolding invoke_split r_def [symmetric]
    by (simp add: Let_def resolve_userId_run do_checkBalance_run do_sanitizeOutput_run
      do_redactPII_run do_consumeTokensWithRetry_run storeCache_run cc checkCache_run
      split: option.splits sum.splits prod.splits)
qed

lemma new_events_append [simp]:
  "trace s' = trace s @ evs \<Longrightarrow> new_events s s' = evs"
  by (simp add: new_events_def)

lemma demo_auth: "authenticated demo_props ''user-1''"
  by (simp add: authenticated_def demo_props_def truthy_def)

lemma demo_key: "cache_key demo_call = ''wolfram:getQuickAnswer:distance from LA to NYmetric''"
  by (simp add: cache_key_def demo_call_def getCacheKey_def units_or_empty_def truthy_def)

lemma demo_world_sel:
  "WOLFRAM_APPID (demo_world b f) = ''DEMO-APPID''"
  "kv_get_fault (demo_world b f) k = None"
  "kv_put_fault (demo_world b f) k v = f"
  "fetch (demo_world b f) r = b"
  "checkBalance (demo_world b f) d uid cost = Inr \<lparr>sufficient = (int cost \<le> d), currentBalance = d\<rparr>"
  "consumeTokensWithRetry (demo_world b f) d a = (None, d - int (arg_cost a))"
  "formatInsufficientTokensError (demo_world b f) name bal cost = ''Insufficient tokens for '' @ name"
  "sanitizeOutput (demo_world b f) t sopts = Inr t"
  "redactPII (demo_world b f) t ropts = demo_redact t ropts"
  "randomUUID (demo_world b f) n = ''action-'' @ number_toString n"
  by (simp_all add: demo_world_def)

lemma demo_state_sel:
  "kv (demo_state m bal) = m" "db (demo_state m bal) = bal"
  "uuid_count (demo_state m bal) = 0" "trace (demo_state m bal) = []"
  by (simp_all add: demo_state_def)

text \<open>What trimming removes, and the result of the short-answer method.\<close>

lemma js_trim_decompose:
  "\<exists>pre post. b = pre @ js_trim b @ post
      \<and> (\<forall>x \<in> set pre. js_whitespace x) \<and> (\<forall>x \<in> set post. js_whitespace x)"
proof -
  let ?rest = "dropWhile js_whitespace b"
  let ?pre = "takeWhile js_whitespace b"
  let ?post = "rev (takeWhile js_whitespace (rev ?rest))"
  have "rev ?rest = takeWhile js_whitespace (rev ?rest) @ dropWhile js_whitespace (rev ?rest)"
    by simp
  then have "?rest = js_trim b @ ?post"
    unfolding js_trim_def by (metis rev_append rev_rev_ident)
  then have "b = ?pre @ js_trim b @ ?post"
    by (metis takeWhile_dropWhile_id)
  moreover have "\<forall>x \<in> set ?pre. js_whitespace x"
    by (auto dest: set_takeWhileD)
  moreover have "\<forall>x \<in> set ?post. js_whitespace x"
    by (auto dest: set_takeWhileD)
  ultimately show ?thesis by blast
qed

lemma js_trim_ends:
  assumes "js_trim b \<noteq> []"
  shows "\<not> js_whitespace (hd (js_trim b))" and "\<not> js_whitespace (last (js_trim b))"
proof -
  let ?rest = "dropWhile js_whitespace b"
  let ?d = "dropWhile js_whitespace (rev ?rest)"
  from assms have d: "?d \<noteq> []" by (simp add: js_trim_def)
  then have "\<not> js_whitespace (hd ?d)" by (rule hd_dropWhile)
  then show "\<not> js_whitespace (last (js_trim b))"
    using d by (simp add: js_trim_def last_rev)
  have r: "?rest \<noteq> []"
  proof
    assume e: "?rest = []"
    have "?d = []" unfolding e by simp
    with d show False by simp
  qed
  then have nr: "\<not> js_whitespace (hd ?rest)" by (rule hd_dropWhile)
  have "rev ?rest = takeWhile js_whitespace (rev ?rest) @ ?d" by simp
  then have "?rest = rev ?d @ rev (takeWhile js_whitespace (rev ?rest))"
    by (metis rev_append rev_rev_ident)
  then have "hd ?rest = hd (rev ?d)" using d by (metis hd_append2 rev_is_Nil_conv)
  then show "\<not> js_whitespace (hd (js_trim b))" using nr by (simp add: js_trim_def)
qed

lemma getQuickAnswer_fst:
  "fst (getQuickAnswer w q u s) =
     (case fetch w (quickAnswer_request w q u) of
        Inl e \<Rightarrow> Inl (JsError (''Failed to get quick answer: '' @ message_or_unknown e))
      | Inr resp \<Rightarrow>
          if status resp = 501 then Inl (JsError (''Failed to get quick answer: '' @ uninterpretable_msg))
          else if status resp = 400 then Inl (JsError (''Failed to get quick answer: '' @ invalid_format_msg))
          else if status resp = 403 then Inl (JsError (''Failed to get quick answer: '' @ invalid_appid_msg))
          else if \<not> response_ok resp then Inl (JsError (''Failed to get quick answer: '' @ api_error_msg resp))
          else (case body resp of
                  Inl e \<Rightarrow> Inl (JsError (''Failed to get quick answer: '' @ message_or_unknown e))
                | Inr b \<Rightarrow> Inr (js_trim b)))"
  by (simp add: getQuickAnswer_def do_fetch_def eff_defs split: sum.splits)

text \<open>Every invocation takes exactly one of nine paths, each with its response and its trace.\<close>

lemma checkCache_never_throws: "fst (checkCache w k s) \<noteq> Inl e"
  by (simp add: checkCache_run)

lemma authenticated_iff:
  "authenticated p uid \<longleftrightarrow> (case p of Some q \<Rightarrow> userId q | None \<Rightarrow> None) = Some uid \<and> truthy uid"
  by (simp add: authenticated_def split: option.splits)

lemma invoke_cases [case_names unauth hit balance_throws insufficient upstream_fails
    sanitize_throws redact_throws charge_throws success]:
  fixes w :: "'db world" and s :: "'db state"
  obtains
    (unauth) s' where
      "\<forall>uid. \<not> authenticated p uid"
      "invoke w p c s =
         (Inr (caught_result (JsError ''User ID not found in authentication context'')), s')"
      "new_events s s' = [EvRandomUUID (next_uuid w s)]"
      "kv s' = kv s" "db s' = db s"
  | (hit) s' uid cached where
      "authenticated p uid"
      "fst (checkCache w (cache_key c) s) = Inr (Some cached)"
      "invoke w p c s = (Inr (cached_result cached), s')"
      "new_events s s' = [EvRandomUUID (next_uuid w s), EvCacheGet (cache_key c)]"
      "kv s' = kv s" "db s' = db s"
  | (balance_throws) s' uid e where
      "authenticated p uid"
      "fst (checkCache w (cache_key c) s) = Inr None"
      "checkBalance w (db s) uid (tool_cost c) = Inl e"
      "invoke w p c s = (Inr (caught_result e), s')"
      "new_events s s' =
         [EvRandomUUID (next_uuid w s), EvCacheGet (cache_key c), EvCheckBalance uid (tool_cost c)]"
      "kv s' = kv s" "db s' = db s"
  | (insufficient) s' uid bc where
      "authenticated p uid"
      "fst (checkCache w (cache_key c) s) = Inr None"
      "checkBalance w (db s) uid (tool_cost c) = Inr bc" "\<not> sufficient bc"
      "invoke w p c s =
         (Inr (error_text_result (formatInsufficientTokensError w (tool_name c)
                                    (currentBalance bc) (tool_cost c))), s')"
      "new_events s s' =
         [EvRandomUUID (next_uuid w s), EvCacheGet (cache_key c), EvCheckBalance uid (tool_cost c)]"
      "kv s' = kv s" "db s' = db s"
  | (upstream_fails) s' uid bc e where
      "authenticated p uid"
      "fst (checkCache w (cache_key c) s) = Inr None"
      "checkBalance w (db s) uid (tool_cost c) = Inr bc" "sufficient bc"
      "fst (client_call w c s) = Inl e"
      "invoke w p c s = (Inr (caught_result e), s')"
      "new_events s s' =
         [EvRandomUUID (next_uuid w s), EvCacheGet (cache_key c), EvCheckBalance uid (tool_cost c),
          EvFetch (upstream_request w c)]"
      "kv s' = kv s" "db s' = db s"
  | (sanitize_throws) s' uid bc raw e where
      "authenticated p uid"
      "fst (checkCache w (cache_key c) s) = Inr None"
      "checkBalance w (db s) uid (tool_cost c) = Inr bc" "sufficient bc"
      "fst (client_call w c s) = Inr raw"
      "sanitizeOutput w raw (sanitize_options c) = Inl e"
      "invoke w p c s = (Inr (caught_result e), s')"
      "new_events s s' =
         [EvRandomUUID (next_uuid w s), EvCacheGet (cache_key c), EvCheckBalance uid (tool_cost c),
          EvFetch (upstream_request w c), EvSanitize raw (sanitize_options c)]"
      "kv s' = kv s" "db s' = db s"
  | (redact_throws) s' uid bc raw san e where
      "authenticated p uid"
      "fst (checkCache w (cache_key c) s) = Inr None"
      "checkBalance w (db s) uid (tool_cost c) = Inr bc" "sufficient bc"
      "fst (client_call w c s) = Inr raw"
      "sanitizeOutput w raw (sanitize_options c) = Inr san"
      "redactPII w san redact_options = Inl e"
      "invoke w p c s = (Inr (caught_result e), s')"
      "new_events s s' =
         [EvRandomUUID (next_uuid w s), EvCacheGet (cache_key c), EvCheckBalance uid (tool_cost c),
          EvFetch (upstream_request w c), EvSanitize raw (sanitize_options c),
          EvRedact san redact_options]"
      "kv s' = kv s" "db s' = db s"
  | (charge_throws) s' uid bc raw san fin pii e where
      "authenticated p uid"
      "fst (checkCache w (cache_key c) s) = Inr None"
      "checkBalance w (db s) uid (tool_cost c) = Inr bc" "sufficient bc"
      "fst (client_call w c s) = Inr raw"
      "sanitizeOutput w raw (sanitize_options c) = Inr san"
      "redactPII w san redact_options = Inr (fin, pii)"
      "fst (consumeTokensWithRetry w (db s) (charge_args c uid fin (next_uuid w s))) = Some e"
      "invoke w p c s = (Inr (caught_result e), s')"
      "new_events s s' =
         [EvRandomUUID (next_uuid w s), EvCacheGet (cache_key c), EvCheckBalance uid (tool_cost c),
          EvFetch (upstream_request w c), EvSanitize raw (sanitize_options c),
          EvRedact san redact_options, EvConsume (charge_args c uid fin (next_uuid w s))]"
      "kv s' = kv s"
      "db s' = snd (consumeTokensWithRetry w (db s) (charge_args c uid fin (next_uuid w s)))"
  | (success) s' uid bc raw san fin pii where
      "authenticated p uid"
      "fst (checkCache w (cache_key c) s) = Inr None"
      "checkBalance w (db s) uid (tool_cost c) = Inr bc" "sufficient bc"
      "fst (client_call w c s) = Inr raw"
      "sanitizeOutput w raw (sanitize_options c) = Inr san"
      "redactPII w san redact_options = Inr (fin, pii)"
      "fst (consumeTokensWithRetry w (db s) (charge_args c uid fin (next_uuid w s))) = None"
      "invoke w p c s = (Inr (text_result fin), s')"
      "new_events s s' =
         [EvRandomUUID (next_uuid w s), EvCacheGet (cache_key c), EvCheckBalance uid (tool_cost c),
          EvFetch (upstream_request w c), EvSanitize raw (sanitize_options c),
          EvRedact san redact_options, EvConsume (charge_args c uid fin (next_uuid w s)),
          EvCachePut (cache_key c) fin 900]"
      "kv s' = (case kv_put_fault w (cache_key c) fin of
                  Some e \<Rightarrow> kv s | None \<Rightarrow> (kv s)(cache_key c \<mapsto> (fin, 900)))"
      "db s' = snd (consumeTokensWithRetry w (db s) (charge_args c uid fin (next_uuid w s)))"
proof (cases "\<exists>uid. authenticated p uid")
  case False
  then have "(case p of Some q \<Rightarrow> userId q | None \<Rightarrow> None) = None
      \<or> (\<exists>u. (case p of Some q \<Rightarrow> userId q | None \<Rightarrow> None) = Some u \<and> \<not> truthy u)"
    by (cases "case p of Some q \<Rightarrow> userId q | None \<Rightarrow> None") (auto simp add: authenticated_iff)
  then have inv: "invoke w p c s =
         (Inr (caught_result (JsError ''User ID not found in authentication context'')),
          s\<lparr>uuid_count := Suc (uuid_count s), trace := trace s @ [EvRandomUUID (next_uuid w s)]\<rparr>)"
    by (auto simp add: invoke_run Let_def)
  from False have na: "\<forall>uid. \<not> authenticated p uid" by simp
  show ?thesis by (rule unauth [OF na inv]) simp_all
next
  case True
  then obtain uid where auth: "authenticated p uid" ..
  then have u: "(case p of Some q \<Rightarrow> userId q | None \<Rightarrow> None) = Some uid" "truthy uid"
    by (simp_all add: authenticated_iff)
  show ?thesis
  proof (cases "fst (checkCache w (cache_key c) s)")
    case (Inl e)
    then show ?thesis by (simp add: checkCache_never_throws)
  next
    case (Inr look)
    show ?thesis
    proof (cases look)
      case (Some cached)
      with Inr have l: "fst (checkCache w (cache_key c) s) = Inr (Some cached)" by simp
      show ?thesis
        by (rule hit [where s' = "snd (invoke w p c s)", OF auth l]) (simp_all add: invoke_run Let_def u l)
    next
      case None
      with Inr have l: "fst (checkCache w (cache_key c) s) = Inr None" by simp
      show ?thesis
      proof (cases "checkBalance w (db s) uid (tool_cost c)")
        case (Inl e)
        show ?thesis
          by (rule balance_throws [where s' = "snd (invoke w p c s)", OF auth l Inl]) (simp_all add: invoke_run Let_def u l Inl)
      next
        case b: (Inr bc)
        show ?thesis
        proof (cases "sufficient bc")
          case False
          show ?thesis
            by (rule insufficient [where s' = "snd (invoke w p c s)", OF auth l b False]) (simp_all add: invoke_run Let_def u l b False)
        next
          case suf: True
          show ?thesis
          proof (cases "fst (client_call w c s)")
            case (Inl e)
            show ?thesis
              by (rule upstream_fails [where s' = "snd (invoke w p c s)", OF auth l b suf Inl])
                 (simp_all add: invoke_run Let_def u l b suf Inl)
          next
            case r: (Inr raw)
            show ?thesis
            proof (cases "sanitizeOutput w raw (sanitize_options c)")
              case (Inl e)
              show ?thesis
                by (rule sanitize_throws [where s' = "snd (invoke w p c s)", OF auth l b suf r Inl])
                   (simp_all add: invoke_run Let_def u l b suf r Inl)
            next
              case sa: (Inr san)
              show ?thesis
              proof (cases "redactPII w san redact_options")
                case (Inl e)
                show ?thesis
                  by (rule redact_throws [where s' = "snd (invoke w p c s)", OF auth l b suf r sa Inl])
                     (simp_all add: invoke_run Let_def u l b suf r sa Inl)
              next
                case (Inr fp)
                then obtain fin pii where re: "redactPII w san redact_options = Inr (fin, pii)"
                  by (cases fp) simp
                show ?thesis
                proof (cases "fst (consumeTokensWithRetry w (db s)
                                (charge_args c uid fin (next_uuid w s)))")
                  case (Some e)
                  show ?thesis
                    by (rule charge_throws [where s' = "snd (invoke w p c s)", OF auth l b suf r sa re Some])
                       (simp_all add: invoke_run Let_def u l b suf r sa re Some)
                next
                  case None
                  show ?thesis
                    by (rule success [where s' = "snd (invoke w p c s)", OF auth l b suf r sa re None])
                       (simp_all add: invoke_run Let_def u l b suf r sa re None)
                qed
              qed
            qed
          qed
        qed
      qed
    qed
  qed
qed

text \<open>A client method returns only what it trimmed from a readable response with a status in 200..299.\<close>

lemma getDetailedAnalysis_ok:
  "fst (getDetailedAnalysis w q m s) = Inr raw \<Longrightarrow>
     \<exists>resp b. fetch w (detailedAnalysis_request w q m) = Inr resp \<and> response_ok resp
        \<and> body resp = Inr b \<and> raw = js_trim b"
  by (auto simp add: getDetailedAnalysis_def do_fetch_def eff_defs split: sum.splits if_splits)

lemma getQuickAnswer_ok:
  "fst (getQuickAnswer w q u s) = Inr raw \<Longrightarrow>
     \<exists>resp b. fetch w (quickAnswer_request w q u) = Inr resp \<and> response_ok resp
        \<and> body resp = Inr b \<and> raw = js_trim b"
  by (auto simp add: getQuickAnswer_fst split: sum.splits if_splits)

lemma client_call_ok:
  "fst (client_call w c s) = Inr raw \<Longrightarrow>
     \<exists>resp b. fetch w (upstream_request w c) = Inr resp \<and> response_ok resp
        \<and> body resp = Inr b \<and> raw = js_trim b"
  by (cases c) (auto dest: getQuickAnswer_ok getDetailedAnalysis_ok)

text \<open>A successful run in the concrete environment.\<close>

lemma demo_client:
  "fst (client_call (demo_world (ok_response b) f) demo_call s) = Inr (js_trim b)"
  by (simp add: demo_call_def getQuickAnswer_fst demo_world_sel ok_response_def response_ok_def)

lemma demo_lookup:
  "fst (checkCache (demo_world u f) k (demo_state m bal)) =
     Inr (case m k of Some (c, t) \<Rightarrow> if c \<noteq> [] then Some c else None | None \<Rightarrow> None)"
  by (simp add: checkCache_run demo_world_sel demo_state_sel)

lemma demo_success:
  assumes "m (cache_key demo_call) = None" and "2 \<le> bal"
    and "demo_redact (js_trim b) redact_options = Inr (fin, pii)"
  shows "invoke (demo_world (ok_response b) f) demo_props demo_call (demo_state m bal) =
           (Inr (text_result fin),
            \<lparr>kv = (case f of Some e \<Rightarrow> m | None \<Rightarrow> m(cache_key demo_call \<mapsto> (fin, 900))),
             db = bal - 2, uuid_count = 1,
             trace = [EvRandomUUID ''action-0'', EvCacheGet (cache_key demo_call),
                      EvCheckBalance ''user-1'' 2,
                      EvFetch (upstream_request (demo_world (ok_response b) f) demo_call),
                      EvSanitize (js_trim b) (sanitize_options demo_call),
                      EvRedact (js_trim b) redact_options,
                      EvConsume (charge_args demo_call ''user-1'' fin ''action-0''),
                      EvCachePut (cache_key demo_call) fin 900]\<rparr>)"
proof -
  have c: "tool_cost demo_call = 2" by (simp add: demo_call_def)
  have u: "next_uuid (demo_world (ok_response b) f) (demo_state m bal) = ''action-0''"
    by (simp add: next_uuid_def demo_world_sel demo_state_sel digit_char_def)
  show ?thesis
    using assms
    by (simp add: invoke_run Let_def demo_lookup demo_client c u demo_world_sel
          demo_props_def truthy_def charge_args_def)
       (simp add: demo_state_def split: option.splits)
qed

lemma demo_insufficient:
  assumes "m (cache_key demo_call) = None" and "bal < 2"
  shows "invoke (demo_world up f) demo_props demo_call (demo_state m bal) =
           (Inr (error_text_result ''Insufficient tokens for getQuickAnswer''),
            \<lparr>kv = m, db = bal, uuid_count = 1,
             trace = [EvRandomUUID ''action-0'', EvCacheGet (cache_key demo_call),
                      EvCheckBalance ''user-1'' 2]\<rparr>)"
proof -
  have c: "tool_cost demo_call = 2" "tool_name demo_call = ''getQuickAnswer''"
    by (simp_all add: demo_call_def)
  have u: "next_uuid (demo_world up f) (demo_state m bal) = ''action-0''"
    by (simp add: next_uuid_def demo_world_sel demo_state_sel digit_char_def)
  show ?thesis
    using assms
    by (simp add: invoke_run Let_def demo_lookup c u demo_world_sel demo_props_def truthy_def)
       (simp add: demo_state_def)
qed

lemma demo_trim_answer: "js_trim ''2,789 km'' = ''2,789 km''"
  by (simp add: js_trim_def js_whitespace_def)

lemma demo_redact_answer: "demo_redact ''2,789 km'' redact_options = Inr (''2,789 km'', [])"
  by (simp add: demo_redact_def)

lemma demo_scenario:
  "invoke (demo_world (ok_response ''2,789 km'') f) demo_props demo_call (demo_state Map.empty 10) =
     (Inr (text_result ''2,789 km''),
      \<lparr>kv = (case f of Some e \<Rightarrow> Map.empty | None \<Rightarrow> [cache_key demo_call \<mapsto> (''2,789 km'', 900)]),
       db = 8, uuid_count = 1,
       trace = [EvRandomUUID ''action-0'', EvCacheGet (cache_key demo_call),
                EvCheckBalance ''user-1'' 2,
                EvFetch (upstream_request (demo_world (ok_response ''2,789 km'') f) demo_call),
                EvSanitize ''2,789 km'' (sanitize_options demo_call),
                EvRedact ''2,789 km'' redact_options,
                EvConsume (charge_args demo_call ''user-1'' ''2,789 km'' ''action-0''),
                EvCachePut (cache_key demo_call) ''2,789 km'' 900]\<rparr>)"
  using demo_success [of Map.empty 10 "''2,789 km''" "''2,789 km''" "[]" f]
  by (simp add: demo_trim_answer demo_redact_answer)

lemma authenticated_unique: "authenticated p uid \<Longrightarrow> authenticated p uid' \<Longrightarrow> uid' = uid"
  by (simp add: authenticated_iff)

section \<open>Properties\<close>

text \<open>
  C1. When the caller is authenticated, the cache lookup misses and \<^verbatim>\<open>checkBalance\<close> reports
  \<open>sufficient = false\<close>, either handler returns (it does not throw) a response with
  \<open>isError = true\<close> whose text is \<^verbatim>\<open>formatInsufficientTokensError\<close> of the tool name, the
  current balance and the tool cost. The invocation draws the action identifier, reads
  the cache and checks the balance, and does nothing else: no request to the query
  service, no call of \<^verbatim>\<open>consumeTokensWithRetry\<close>, no write to the cache; cache and token
  database are left as they were.
\<close>

theorem insufficient_balance_gate:
  assumes "authenticated p uid"
    and "fst (checkCache w (cache_key c) s) = Inr None"
    and "checkBalance w (db s) uid (tool_cost c) = Inr bc"
    and "\<not> sufficient bc"
  shows "\<exists>s'. invoke w p c s =
            (Inr \<lparr>content = [TextContent (formatInsufficientTokensError w (tool_name c)
                                             (currentBalance bc) (tool_cost c))],
                  isError = Some True\<rparr>, s')
          \<and> new_events s s' =
              [EvRandomUUID (next_uuid w s), EvCacheGet (cache_key c),
               EvCheckBalance uid (tool_cost c)]
          \<and> (\<forall>r. EvFetch r \<notin> set (new_events s s'))
          \<and> (\<forall>a. EvConsume a \<notin> set (new_events s s'))
          \<and> (\<forall>k v ttl. EvCachePut k v ttl \<notin> set (new_events s s'))
          \<and> kv s' = kv s \<and> db s' = db s"
  using assms
  by (auto simp add: invoke_run Let_def authenticated_def error_text_result_def
      split: option.splits)

text \<open>
  An instance: the caller holds one token and asks for a quick answer, which costs two.
\<close>

theorem insufficient_balance_gate_witness:
  "authenticated demo_props ''user-1''
   \<and> fst (checkCache (demo_world (ok_response ''2,789 km'') None) (cache_key demo_call) (demo_state Map.empty 1)) = Inr None
   \<and> checkBalance (demo_world (ok_response ''2,789 km'') None) (db (demo_state Map.empty 1)) ''user-1'' (tool_cost demo_call)
       = Inr \<lparr>sufficient = False, currentBalance = 1\<rparr>
   \<and> \<not> sufficient \<lparr>sufficient = False, currentBalance = 1\<rparr>
   \<and> (\<exists>s'. invoke (demo_world (ok_response ''2,789 km'') None) demo_props demo_call (demo_state Map.empty 1) =
            (Inr \<lparr>content = [TextContent ''Insufficient tokens for getQuickAnswer''],
                  isError = Some True\<rparr>, s')
          \<and> new_events (demo_state Map.empty 1) s' =
              [EvRandomUUID ''action-0'', EvCacheGet ''wolfram:getQuickAnswer:distance from LA to NYmetric'',
               EvCheckBalance ''user-1'' 2]
          \<and> kv s' = Map.empty \<and> db s' = 1)"
proof -
  let ?w = "demo_world (ok_response ''2,789 km'') None" and ?s = "demo_state Map.empty 1"
  have h1: "fst (checkCache ?w (cache_key demo_call) ?s) = Inr None"
    by (simp add: checkCache_run demo_world_sel demo_state_sel)
  have h2: "checkBalance ?w (db ?s) ''user-1'' (tool_cost demo_call)
       = Inr \<lparr>sufficient = False, currentBalance = 1\<rparr>"
    by (simp add: demo_world_sel demo_state_sel demo_call_def)
  have h3: "\<not> sufficient \<lparr>sufficient = False, currentBalance = 1\<rparr>" by simp
  have c: "tool_cost demo_call = 2" "tool_name demo_call = ''getQuickAnswer''"
    by (simp_all add: demo_call_def)
  have u: "next_uuid ?w ?s = ''action-0''"
    by (simp add: next_uuid_def demo_world_sel demo_state_sel digit_char_def)
  show ?thesis
    using insufficient_balance_gate [OF demo_auth h1 h2 h3] demo_auth h1 h2
    by (auto simp add: demo_key c u demo_world_sel demo_state_sel)
qed

text \<open>
  C2. In every invocation that ends without an error flag and was not served from the
  cache, the text in the response, the \<^verbatim>\<open>output\<close> argument of \<^verbatim>\<open>consumeTokensWithRetry\<close> and
  the value written to the cache are one string: the \<^verbatim>\<open>redacted\<close> component of \<^verbatim>\<open>redactPII\<close>
  applied to \<^verbatim>\<open>sanitizeOutput\<close> of the trimmed upstream body, with credit cards among the
  enabled categories and the placeholder \<^verbatim>\<open>[REDACTED]\<close>. Hence a pattern that the redactor
  removed occurs in none of the three places. In every invocation whatsoever, a value
  written to the cache, and any entry of the cache that changed, is such a sanitized and
  redacted text, never the raw upstream output.
\<close>

theorem sanitized_output_everywhere:
  assumes run: "invoke w p c s = (Inr r, s')"
  shows "(isError r = None \<and> fst (checkCache w (cache_key c) s) = Inr None \<longrightarrow>
           (\<exists>uid resp b san fin pii.
              authenticated p uid
            \<and> fetch w (upstream_request w c) = Inr resp \<and> body resp = Inr b
            \<and> sanitizeOutput w (js_trim b) (sanitize_options c) = Inr san
            \<and> redactPII w san redact_options = Inr (fin, pii)
            \<and> content r = [TextContent fin]
            \<and> EvConsume (charge_args c uid fin (next_uuid w s)) \<in> set (new_events s s')
            \<and> arg_output (charge_args c uid fin (next_uuid w s)) = fin
            \<and> EvCachePut (cache_key c) fin 900 \<in> set (new_events s s')
            \<and> (kv_put_fault w (cache_key c) fin = None \<longrightarrow> kv s' (cache_key c) = Some (fin, 900))
            \<and> (\<forall>pat. \<not> sublist pat fin \<longrightarrow>
                  (\<forall>t. TextContent t \<in> set (content r) \<longrightarrow> \<not> sublist pat t)
                \<and> (\<forall>a. EvConsume a \<in> set (new_events s s') \<longrightarrow> \<not> sublist pat (arg_output a))
                \<and> (\<forall>k v ttl. EvCachePut k v ttl \<in> set (new_events s s') \<longrightarrow> \<not> sublist pat v))))
       \<and> (\<forall>k v ttl. EvCachePut k v ttl \<in> set (new_events s s') \<longrightarrow>
             (\<exists>resp b san pii.
                fetch w (upstream_request w c) = Inr resp \<and> body resp = Inr b
              \<and> sanitizeOutput w (js_trim b) (sanitize_options c) = Inr san
              \<and> redactPII w san redact_options = Inr (v, pii)))
       \<and> (\<forall>k. kv s' k \<noteq> kv s k \<longrightarrow>
             (\<exists>resp b san fin pii.
                fetch w (upstream_request w c) = Inr resp \<and> body resp = Inr b
              \<and> sanitizeOutput w (js_trim b) (sanitize_options c) = Inr san
              \<and> redactPII w san redact_options = Inr (fin, pii)
              \<and> kv s' k = Some (fin, 900)))
       \<and> redactCreditCards redact_options \<and> placeholder redact_options = ''[REDACTED]''"
proof (cases rule: invoke_cases [of p w c s])
  case (success s'' uid bc raw san fin pii)
  from client_call_ok [OF success(5)] obtain resp b where
    f: "fetch w (upstream_request w c) = Inr resp" "body resp = Inr b" "raw = js_trim b"
    by blast
  from success(9) run have e: "r = text_result fin" "s'' = s'" by simp_all
  show ?thesis
    using success(1,6,7,10,11) f unfolding e
    by (auto simp add: text_result_def charge_args_def redact_options_def split: option.splits if_splits)
qed (use run in \<open>auto simp add: caught_result_def error_text_result_def redact_options_def\<close>)

text \<open>
  An instance: the query service returns a text with a card number, and the redactor
  replaces the number; response, charge and cache hold the redacted text.
\<close>

theorem sanitized_output_everywhere_witness:
  "invoke (demo_world (ok_response ''Card: 4532-1111-2222-3333'') None) demo_props demo_call
      (demo_state Map.empty 10) =
     (Inr (text_result ''Card: [REDACTED]''),
      \<lparr>kv = [cache_key demo_call \<mapsto> (''Card: [REDACTED]'', 900)], db = 8, uuid_count = 1,
       trace = [EvRandomUUID ''action-0'', EvCacheGet (cache_key demo_call),
                EvCheckBalance ''user-1'' 2,
                EvFetch (upstream_request (demo_world (ok_response ''Card: 4532-1111-2222-3333'') None) demo_call),
                EvSanitize ''Card: 4532-1111-2222-3333'' (sanitize_options demo_call),
                EvRedact ''Card: 4532-1111-2222-3333'' redact_options,
                EvConsume (charge_args demo_call ''user-1'' ''Card: [REDACTED]'' ''action-0''),
                EvCachePut (cache_key demo_call) ''Card: [REDACTED]'' 900]\<rparr>)
   \<and> isError (text_result ''Card: [REDACTED]'') = None
   \<and> fst (checkCache (demo_world (ok_response ''Card: 4532-1111-2222-3333'') None) (cache_key demo_call)
            (demo_state Map.empty 10)) = Inr None
   \<and> sublist demo_card ''Card: 4532-1111-2222-3333''
   \<and> \<not> sublist demo_card ''Card: [REDACTED]''
   \<and> \<not> sublist demo_card
         (arg_output (charge_args demo_call ''user-1'' ''Card: [REDACTED]'' ''action-0''))"
proof -
  let ?w = "demo_world (ok_response ''Card: 4532-1111-2222-3333'') None"
  let ?s = "demo_state Map.empty 10"
  have t: "js_trim ''Card: 4532-1111-2222-3333'' = ''Card: 4532-1111-2222-3333''"
    by (simp add: js_trim_def js_whitespace_def)
  have r: "demo_redact (js_trim ''Card: 4532-1111-2222-3333'') redact_options = Inr (''Card: [REDACTED]'', [''creditCard''])"
    unfolding t by (simp add: demo_redact_def redact_options_def)
  have run: "invoke ?w demo_props demo_call ?s =
     (Inr (text_result ''Card: [REDACTED]''),
      \<lparr>kv = [cache_key demo_call \<mapsto> (''Card: [REDACTED]'', 900)], db = 8, uuid_count = 1,
       trace = [EvRandomUUID ''action-0'', EvCacheGet (cache_key demo_call),
                EvCheckBalance ''user-1'' 2,
                EvFetch (upstream_request ?w demo_call),
                EvSanitize ''Card: 4532-1111-2222-3333'' (sanitize_options demo_call),
                EvRedact ''Card: 4532-1111-2222-3333'' redact_options,
                EvConsume (charge_args demo_call ''user-1'' ''Card: [REDACTED]'' ''action-0''),
                EvCachePut (cache_key demo_call) ''Card: [REDACTED]'' 900]\<rparr>)"
    using demo_success [OF _ _ r, of Map.empty 10 None] by (simp add: t)
  have e: "isError (text_result ''Card: [REDACTED]'') = None" by (simp add: text_result_def)
  have m: "fst (checkCache ?w (cache_key demo_call) ?s) = Inr None" by (simp add: demo_lookup)
  have a: "sublist demo_card ''Card: 4532-1111-2222-3333''"
    by (simp add: demo_card_def sublist_Cons_right)
  have n: "\<not> sublist demo_card ''Card: [REDACTED]''"
    by (simp add: demo_card_def sublist_Cons_right)
  show ?thesis
    using sanitized_output_everywhere [OF run] run e m a n
    by (auto simp add: new_events_def demo_state_sel charge_args_def)
qed

text \<open>
  C3. The calls of an invocation occur in the order of the pipeline: action identifier,
  cache lookup, balance check, external request, sanitization, redaction, charge, cache
  store; an invocation performs an initial part of this sequence. When the balance check
  throws or reports an insufficient balance, no request is sent to the query service. The
  charge receives as output what \<^verbatim>\<open>redactPII\<close> made of the sanitized text, both computed
  before it. A write to the cache happens only after a charge that succeeded, with the
  output that was charged for.
\<close>

theorem pipeline_step_order:
  fixes w :: "'db world" and s :: "'db state"
  assumes run: "invoke w p c s = (Inr r, s')"
  shows "prefix (map step_of (new_events s s')) pipeline_order
       \<and> (\<forall>uid n. EvCheckBalance uid n \<in> set (new_events s s')
              \<and> (\<forall>bc. checkBalance w (db s) uid n = Inr bc \<longrightarrow> \<not> sufficient bc)
             \<longrightarrow> (\<forall>q. EvFetch q \<notin> set (new_events s s')))
       \<and> (\<forall>a. EvConsume a \<in> set (new_events s s') \<longrightarrow>
             (\<exists>raw san pii.
                EvSanitize raw (sanitize_options c) \<in> set (new_events s s')
              \<and> sanitizeOutput w raw (sanitize_options c) = Inr san
              \<and> EvRedact san redact_options \<in> set (new_events s s')
              \<and> redactPII w san redact_options = Inr (arg_output a, pii)))
       \<and> (\<forall>k v ttl. EvCachePut k v ttl \<in> set (new_events s s') \<longrightarrow>
             (\<exists>a. EvConsume a \<in> set (new_events s s')
                \<and> fst (consumeTokensWithRetry w (db s) a) = None \<and> arg_output a = v))"
proof (cases rule: invoke_cases [of p w c s])
  case (unauth s'')
  with run show ?thesis by (simp add: pipeline_order_def)
next
  case (hit s'' uid cached)
  with run show ?thesis by (simp add: pipeline_order_def)
next
  case (balance_throws s'' uid e)
  with run show ?thesis by (simp add: pipeline_order_def)
next
  case (insufficient s'' uid bc)
  with run show ?thesis by (simp add: pipeline_order_def)
next
  case (upstream_fails s'' uid bc e)
  with run show ?thesis by (auto simp add: pipeline_order_def)
next
  case (sanitize_throws s'' uid bc raw e)
  with run show ?thesis by (auto simp add: pipeline_order_def)
next
  case (redact_throws s'' uid bc raw san e)
  with run show ?thesis by (auto simp add: pipeline_order_def)
next
  case (charge_throws s'' uid bc raw san fin pii e)
  with run show ?thesis by (auto simp add: pipeline_order_def charge_args_def)
next
  case (success s'' uid bc raw san fin pii)
  with run show ?thesis by (auto simp add: pipeline_order_def charge_args_def)
qed

text \<open>
  Two instances: a run through all eight steps with a balance of ten tokens, and a run
  that stops at the balance check with a balance of one.
\<close>

theorem pipeline_step_order_witness:
  "invoke (demo_world (ok_response ''2,789 km'') None) demo_props demo_call (demo_state Map.empty 10) =
     (Inr (text_result ''2,789 km''),
      snd (invoke (demo_world (ok_response ''2,789 km'') None) demo_props demo_call
             (demo_state Map.empty 10)))
   \<and> new_events (demo_state Map.empty 10)
        (snd (invoke (demo_world (ok_response ''2,789 km'') None) demo_props demo_call
               (demo_state Map.empty 10))) =
       [EvRandomUUID ''action-0'', EvCacheGet (cache_key demo_call),
        EvCheckBalance ''user-1'' 2,
        EvFetch (upstream_request (demo_world (ok_response ''2,789 km'') None) demo_call),
        EvSanitize ''2,789 km'' (sanitize_options demo_call),
        EvRedact ''2,789 km'' redact_options,
        EvConsume (charge_args demo_call ''user-1'' ''2,789 km'' ''action-0''),
        EvCachePut (cache_key demo_call) ''2,789 km'' 900]
   \<and> prefix (map step_of (new_events (demo_state Map.empty 10)
        (snd (invoke (demo_world (ok_response ''2,789 km'') None) demo_props demo_call
               (demo_state Map.empty 10))))) pipeline_order
   \<and> invoke (demo_world (ok_response ''2,789 km'') None) demo_props demo_call (demo_state Map.empty 1) =
     (Inr (error_text_result ''Insufficient tokens for getQuickAnswer''),
      snd (invoke (demo_world (ok_response ''2,789 km'') None) demo_props demo_call
             (demo_state Map.empty 1)))
   \<and> EvCheckBalance ''user-1'' 2 \<in> set (new_events (demo_state Map.empty 1)
        (snd (invoke (demo_world (ok_response ''2,789 km'') None) demo_props demo_call
               (demo_state Map.empty 1))))
   \<and> checkBalance (demo_world (ok_response ''2,789 km'') None) (db (demo_state Map.empty 1))
        ''user-1'' 2 = Inr \<lparr>sufficient = False, currentBalance = 1\<rparr>
   \<and> EvFetch (upstream_request (demo_world (ok_response ''2,789 km'') None) demo_call) \<notin>
        set (new_events (demo_state Map.empty 1)
          (snd (invoke (demo_world (ok_response ''2,789 km'') None) demo_props demo_call
                 (demo_state Map.empty 1))))"
proof -
  let ?w = "demo_world (ok_response ''2,789 km'') None"
  have r1: "invoke ?w demo_props demo_call (demo_state Map.empty 10) =
     (Inr (text_result ''2,789 km''), snd (invoke ?w demo_props demo_call (demo_state Map.empty 10)))"
    by (simp add: demo_scenario)
  have r2: "invoke ?w demo_props demo_call (demo_state Map.empty 1) =
     (Inr (error_text_result ''Insufficient tokens for getQuickAnswer''),
      snd (invoke ?w demo_props demo_call (demo_state Map.empty 1)))"
    by (simp add: demo_insufficient)
  have e1: "new_events (demo_state Map.empty 10)
        (snd (invoke ?w demo_props demo_call (demo_state Map.empty 10))) =
       [EvRandomUUID ''action-0'', EvCacheGet (cache_key demo_call),
        EvCheckBalance ''user-1'' 2,
        EvFetch (upstream_request ?w demo_call),
        EvSanitize ''2,789 km'' (sanitize_options demo_call),
        EvRedact ''2,789 km'' redact_options,
        EvConsume (charge_args demo_call ''user-1'' ''2,789 km'' ''action-0''),
        EvCachePut (cache_key demo_call) ''2,789 km'' 900]"
    by (simp add: demo_scenario new_events_def demo_state_sel)
  have e2: "EvCheckBalance ''user-1'' 2 \<in> set (new_events (demo_state Map.empty 1)
        (snd (invoke ?w demo_props demo_call (demo_state Map.empty 1))))"
    by (simp add: demo_insufficient new_events_def demo_state_sel)
  have b: "\<forall>bc. checkBalance ?w (db (demo_state Map.empty 1)) ''user-1'' 2 = Inr bc
             \<longrightarrow> \<not> sufficient bc"
    by (auto simp add: demo_world_sel demo_state_sel)
  have b': "checkBalance ?w (db (demo_state Map.empty 1)) ''user-1'' 2
              = Inr \<lparr>sufficient = False, currentBalance = 1\<rparr>"
    by (simp add: demo_world_sel demo_state_sel)
  from pipeline_step_order [OF r1] pipeline_step_order [OF r2] r1 r2 e1 e2 b b'
  show ?thesis by blast
qed

text \<open>
  C4. When the caller is authenticated and the cache lookup returns a stored value, either
  handler answers with the text \<^verbatim>\<open>[Cached Result]\<close>, an empty line and the cached content,
  without an error flag. Besides drawing the action identifier and reading the cache it
  does nothing: no balance check, no request to the query service, no charge, no write to
  the cache; the token database, and so the caller's balance, is unchanged.
\<close>

theorem cache_hit_bypass:
  assumes "authenticated p uid"
    and "fst (checkCache w (cache_key c) s) = Inr (Some cached)"
  shows "\<exists>s'. invoke w p c s =
            (Inr \<lparr>content = [TextContent (''[Cached Result]'' @ [CHR 0x0A, CHR 0x0A] @ cached)],
                  isError = None\<rparr>, s')
          \<and> new_events s s' = [EvRandomUUID (next_uuid w s), EvCacheGet (cache_key c)]
          \<and> (\<forall>u n. EvCheckBalance u n \<notin> set (new_events s s'))
          \<and> (\<forall>r. EvFetch r \<notin> set (new_events s s'))
          \<and> (\<forall>a. EvConsume a \<notin> set (new_events s s'))
          \<and> (\<forall>k v ttl. EvCachePut k v ttl \<notin> set (new_events s s'))
          \<and> kv s' = kv s \<and> db s' = db s"
  using assms
  by (auto simp add: invoke_run Let_def authenticated_def cached_result_def
      split: option.splits)

text \<open>
  An instance: the cache holds an answer under the key of the call, and the balance of
  eight tokens stays.
\<close>

theorem cache_hit_bypass_witness:
  "authenticated demo_props ''user-1''
   \<and> fst (checkCache (demo_world (ok_response ''2,789 km'') None) (cache_key demo_call)
            (demo_state [cache_key demo_call \<mapsto> (''2,789 km'', 900)] 8)) = Inr (Some ''2,789 km'')
   \<and> (\<exists>s'. invoke (demo_world (ok_response ''2,789 km'') None) demo_props demo_call
               (demo_state [cache_key demo_call \<mapsto> (''2,789 km'', 900)] 8) =
            (Inr \<lparr>content = [TextContent (''[Cached Result]'' @ [CHR 0x0A, CHR 0x0A] @ ''2,789 km'')],
                  isError = None\<rparr>, s')
          \<and> (\<forall>a. EvConsume a \<notin> set (new_events (demo_state [cache_key demo_call \<mapsto> (''2,789 km'', 900)] 8) s'))
          \<and> db s' = 8)"
proof -
  let ?w = "demo_world (ok_response ''2,789 km'') None"
  let ?s = "demo_state [cache_key demo_call \<mapsto> (''2,789 km'', 900)] 8"
  have h: "fst (checkCache ?w (cache_key demo_call) ?s) = Inr (Some ''2,789 km'')"
    by (simp add: checkCache_run demo_world_sel demo_state_sel)
  show ?thesis
    using cache_hit_bypass [OF demo_auth h] demo_auth h
    by (auto simp add: demo_state_sel)
qed

text \<open>
  C5. Every invocation draws exactly one action identifier, as its first call and so before
  the balance check. If \<^verbatim>\<open>consumeTokensWithRetry\<close> is called, it is called once, with the user
  identifier of the caller, the cost of the tool (2 for \<^verbatim>\<open>getQuickAnswer\<close>, 4 for
  \<^verbatim>\<open>getDetailedAnalysis\<close>), the server name \<^verbatim>\<open>knowledge-engine\<close>, the tool name, the input
  arguments, the sanitized and redacted output, \<open>success = true\<close> and that identifier; and
  it is called whenever all the steps before the charge succeed. This one call is all the
  ledger receives, so its retries have no other identifier to use.
\<close>

theorem single_action_identifier:
  fixes w :: "'db world" and s :: "'db state"
  assumes run: "invoke w p c s = (Inr r, s')"
  shows "(\<exists>rest. new_events s s' = EvRandomUUID (next_uuid w s) # rest
              \<and> (\<forall>u. EvRandomUUID u \<notin> set rest))
       \<and> (\<forall>a. EvConsume a \<in> set (new_events s s') \<longrightarrow>
             filter (\<lambda>e. step_of e = Charge) (new_events s s') = [EvConsume a]
           \<and> authenticated p (arg_userId a)
           \<and> arg_cost a = tool_cost c
           \<and> arg_serverName a = ''knowledge-engine''
           \<and> arg_toolName a = tool_name c
           \<and> arg_input a = input_of c
           \<and> (\<exists>raw san pii. sanitizeOutput w raw (sanitize_options c) = Inr san
                  \<and> redactPII w san redact_options = Inr (arg_output a, pii))
           \<and> arg_success a = True
           \<and> arg_actionId a = next_uuid w s)
       \<and> (authenticated p uid \<and> fst (checkCache w (cache_key c) s) = Inr None
            \<and> checkBalance w (db s) uid (tool_cost c) = Inr bc \<and> sufficient bc
            \<and> fst (client_call w c s) = Inr raw
            \<and> sanitizeOutput w raw (sanitize_options c) = Inr san
            \<and> redactPII w san redact_options = Inr (fin, pii)
           \<longrightarrow> EvConsume \<lparr>arg_userId = uid, arg_cost = tool_cost c,
                           arg_serverName = ''knowledge-engine'', arg_toolName = tool_name c,
                           arg_input = input_of c, arg_output = fin, arg_success = True,
                           arg_actionId = next_uuid w s\<rparr> \<in> set (new_events s s'))
       \<and> tool_cost (QuickAnswerCall q u) = 2 \<and> tool_cost (DetailedAnalysisCall q m) = 4"
proof (cases rule: invoke_cases [of p w c s])
  case (unauth s'')
  with run show ?thesis by simp
next
  case (hit s'' uid' cached)
  with run show ?thesis by simp
next
  case (balance_throws s'' uid' e)
  with run show ?thesis by (auto dest: authenticated_unique)
next
  case (insufficient s'' uid' bc')
  with run show ?thesis by (auto dest: authenticated_unique)
next
  case (upstream_fails s'' uid' bc' e)
  with run show ?thesis by (auto dest: authenticated_unique)
next
  case (sanitize_throws s'' uid' bc' raw' e)
  with run show ?thesis by (auto dest: authenticated_unique)
next
  case (redact_throws s'' uid' bc' raw' san' e)
  with run show ?thesis by (auto dest: authenticated_unique)
next
  case (charge_throws s'' uid' bc' raw' san' fin' pii' e)
  with run show ?thesis by (auto simp add: charge_args_def dest: authenticated_unique)
next
  case (success s'' uid' bc' raw' san' fin' pii')
  with run show ?thesis by (auto simp add: charge_args_def dest: authenticated_unique)
qed

text \<open>
  An instance: the run through all steps charges once, with the identifier drawn at the
  start and the cost of two tokens.
\<close>

theorem single_action_identifier_witness:
  "invoke (demo_world (ok_response ''2,789 km'') None) demo_props demo_call (demo_state Map.empty 10) =
     (Inr (text_result ''2,789 km''),
      snd (invoke (demo_world (ok_response ''2,789 km'') None) demo_props demo_call
             (demo_state Map.empty 10)))
   \<and> EvConsume (charge_args demo_call ''user-1'' ''2,789 km'' ''action-0'') \<in>
       set (new_events (demo_state Map.empty 10)
         (snd (invoke (demo_world (ok_response ''2,789 km'') None) demo_props demo_call
                (demo_state Map.empty 10))))
   \<and> filter (\<lambda>e. step_of e = Charge)
        (new_events (demo_state Map.empty 10)
          (snd (invoke (demo_world (ok_response ''2,789 km'') None) demo_props demo_call
                 (demo_state Map.empty 10)))) =
       [EvConsume (charge_args demo_call ''user-1'' ''2,789 km'' ''action-0'')]
   \<and> arg_actionId (charge_args demo_call ''user-1'' ''2,789 km'' ''action-0'') =
       next_uuid (demo_world (ok_response ''2,789 km'') None) (demo_state Map.empty 10)
   \<and> arg_cost (charge_args demo_call ''user-1'' ''2,789 km'' ''action-0'') = 2"
proof -
  let ?w = "demo_world (ok_response ''2,789 km'') None"
  let ?s = "demo_state Map.empty 10"
  have r: "invoke ?w demo_props demo_call ?s =
     (Inr (text_result ''2,789 km''), snd (invoke ?w demo_props demo_call ?s))"
    by (simp add: demo_scenario)
  have e: "EvConsume (charge_args demo_call ''user-1'' ''2,789 km'' ''action-0'') \<in>
       set (new_events ?s (snd (invoke ?w demo_props demo_call ?s)))"
    by (simp add: demo_scenario new_events_def demo_state_sel)
  have c: "tool_cost demo_call = 2" by (simp add: demo_call_def)
  from single_action_identifier [OF r] r e c show ?thesis by auto
qed

text \<open>
  C6, as stated, fails on the code for the cache steps: when the storage layer throws
  during the cache store, the exception is swallowed inside \<^verbatim>\<open>storeCache\<close>, it does not
  reach the boundary of the invocation, and the response carries the result, not an error.
\<close>

theorem cache_store_exception_counterexample:
  "fst (cacheKV_put (demo_world (ok_response ''2,789 km'') (Some (JsError ''KV unavailable'')))
          (cache_key demo_call) ''2,789 km'' 900 (demo_state Map.empty 8))
     = Inl (JsError ''KV unavailable'')
   \<and> EvCachePut (cache_key demo_call) ''2,789 km'' 900 \<in>
       set (new_events (demo_state Map.empty 10)
             (snd (invoke (demo_world (ok_response ''2,789 km'') (Some (JsError ''KV unavailable'')))
                     demo_props demo_call (demo_state Map.empty 10))))
   \<and> fst (invoke (demo_world (ok_response ''2,789 km'') (Some (JsError ''KV unavailable'')))
             demo_props demo_call (demo_state Map.empty 10))
     = Inr \<lparr>content = [TextContent ''2,789 km''], isError = None\<rparr>"
  by (simp add: demo_scenario cacheKV_put_def eff_defs demo_world_sel new_events_def
        demo_state_sel text_result_def)

text \<open>
  C6, amended. A handler never lets an exception escape: every invocation returns a
  response. An exception that a step throws to the handler (the resolution of the user
  identity, the balance check, the external call, sanitization, redaction, the charge) is
  caught at the boundary of the invocation and becomes a response with \<open>isError = true\<close>
  whose text is \<^verbatim>\<open>Error: \<close> followed by the message of the exception. The cache lookup and
  the cache store throw nothing to the handler: an error of the storage layer is swallowed
  inside them and does not make the response an error.
\<close>

theorem exception_boundary:
  fixes w :: "'db world" and s :: "'db state"
  shows "(\<exists>r s'. invoke w p c s = (Inr r, s'))
       \<and> ((\<forall>uid. \<not> authenticated p uid) \<longrightarrow>
            fst (invoke w p c s) =
              Inr \<lparr>content = [TextContent (''Error: '' @ ''User ID not found in authentication context'')],
                   isError = Some True\<rparr>)
       \<and> (authenticated p uid \<and> fst (checkCache w (cache_key c) s) = Inr None \<longrightarrow>
            (checkBalance w (db s) uid (tool_cost c) = Inl e \<longrightarrow>
               fst (invoke w p c s) =
                 Inr \<lparr>content = [TextContent (''Error: '' @ message_or_string e)], isError = Some True\<rparr>)
          \<and> (checkBalance w (db s) uid (tool_cost c) = Inr bc \<and> sufficient bc \<longrightarrow>
               (fst (client_call w c s) = Inl e \<longrightarrow>
                  fst (invoke w p c s) =
                    Inr \<lparr>content = [TextContent (''Error: '' @ message_or_string e)], isError = Some True\<rparr>)
             \<and> (fst (client_call w c s) = Inr raw \<longrightarrow>
                  (sanitizeOutput w raw (sanitize_options c) = Inl e \<longrightarrow>
                     fst (invoke w p c s) =
                       Inr \<lparr>content = [TextContent (''Error: '' @ message_or_string e)], isError = Some True\<rparr>)
                \<and> (sanitizeOutput w raw (sanitize_options c) = Inr san \<longrightarrow>
                     (redactPII w san redact_options = Inl e \<longrightarrow>
                        fst (invoke w p c s) =
                          Inr \<lparr>content = [TextContent (''Error: '' @ message_or_string e)], isError = Some True\<rparr>)
                   \<and> (redactPII w san redact_options = Inr (fin, pii)
                        \<and> fst (consumeTokensWithRetry w (db s) (charge_args c uid fin (next_uuid w s))) = Some e \<longrightarrow>
                        fst (invoke w p c s) =
                          Inr \<lparr>content = [TextContent (''Error: '' @ message_or_string e)], isError = Some True\<rparr>)
                   \<and> (redactPII w san redact_options = Inr (fin, pii)
                        \<and> fst (consumeTokensWithRetry w (db s) (charge_args c uid fin (next_uuid w s))) = None \<longrightarrow>
                        fst (invoke w p c s) = Inr \<lparr>content = [TextContent fin], isError = None\<rparr>)))))
       \<and> fst (checkCache w k s) \<noteq> Inl e \<and> fst (storeCache w k v s) \<noteq> Inl e"
proof (cases rule: invoke_cases [of p w c s])
  case (unauth s'')
  then show ?thesis by (simp add: caught_result_def error_text_result_def checkCache_run storeCache_run)
next
  case (hit s'' uid' cached)
  then show ?thesis by (auto simp add: checkCache_run storeCache_run)
next
  case (balance_throws s'' uid' e')
  then show ?thesis
    by (auto simp add: caught_result_def error_text_result_def checkCache_run storeCache_run
          dest: authenticated_unique)
next
  case (insufficient s'' uid' bc')
  then show ?thesis
    by (auto simp add: caught_result_def error_text_result_def checkCache_run storeCache_run
          dest: authenticated_unique)
next
  case (upstream_fails s'' uid' bc' e')
  then show ?thesis
    by (auto simp add: caught_result_def error_text_result_def checkCache_run storeCache_run
          dest: authenticated_unique)
next
  case (sanitize_throws s'' uid' bc' raw' e')
  then show ?thesis
    by (auto simp add: caught_result_def error_text_result_def checkCache_run storeCache_run
          dest: authenticated_unique)
next
  case (redact_throws s'' uid' bc' raw' san' e')
  then show ?thesis
    by (auto simp add: caught_result_def error_text_result_def checkCache_run storeCache_run
          dest: authenticated_unique)
next
  case (charge_throws s'' uid' bc' raw' san' fin' pii' e')
  then show ?thesis
    by (auto simp add: caught_result_def error_text_result_def checkCache_run storeCache_run
          dest: authenticated_unique)
next
  case (success s'' uid' bc' raw' san' fin' pii')
  then show ?thesis
    by (auto simp add: caught_result_def error_text_result_def text_result_def checkCache_run storeCache_run
          dest: authenticated_unique)
qed

text \<open>
  Two instances: the request to the query service fails with a value that is not an
  error object, and the authentication context is missing.
\<close>

theorem exception_boundary_witness:
  "authenticated demo_props ''user-1''
   \<and> fst (checkCache (demo_world (Inl (JsThrown ''network down'')) None) (cache_key demo_call)
           (demo_state Map.empty 10)) = Inr None
   \<and> checkBalance (demo_world (Inl (JsThrown ''network down'')) None) (db (demo_state Map.empty 10))
        ''user-1'' (tool_cost demo_call) = Inr \<lparr>sufficient = True, currentBalance = 10\<rparr>
   \<and> sufficient \<lparr>sufficient = True, currentBalance = 10\<rparr>
   \<and> fst (client_call (demo_world (Inl (JsThrown ''network down'')) None) demo_call
           (demo_state Map.empty 10))
       = Inl (JsError ''Failed to get quick answer: Unknown error'')
   \<and> fst (invoke (demo_world (Inl (JsThrown ''network down'')) None) demo_props demo_call
           (demo_state Map.empty 10))
       = Inr \<lparr>content = [TextContent ''Error: Failed to get quick answer: Unknown error''],
              isError = Some True\<rparr>
   \<and> fst (invoke (demo_world (Inl (JsThrown ''network down'')) None) None demo_call
           (demo_state Map.empty 10))
       = Inr \<lparr>content = [TextContent ''Error: User ID not found in authentication context''],
              isError = Some True\<rparr>"
proof -
  let ?w = "demo_world (Inl (JsThrown ''network down'')) None"
  let ?s = "demo_state Map.empty 10"
  have m: "fst (checkCache ?w (cache_key demo_call) ?s) = Inr None"
    by (simp add: demo_lookup)
  have b: "checkBalance ?w (db ?s) ''user-1'' (tool_cost demo_call)
             = Inr \<lparr>sufficient = True, currentBalance = 10\<rparr>"
    by (simp add: demo_world_sel demo_state_sel demo_call_def)
  have u: "fst (client_call ?w demo_call ?s) = Inl (JsError ''Failed to get quick answer: Unknown error'')"
    by (simp add: demo_call_def getQuickAnswer_fst demo_world_sel)
  have n: "\<forall>uid. \<not> authenticated None uid" by (simp add: authenticated_def)
  show ?thesis
    using exception_boundary [where w = ?w and p = demo_props and c = demo_call and s = ?s
        and uid = "''user-1''" and bc = "\<lparr>sufficient = True, currentBalance = 10\<rparr>"
        and e = "JsError ''Failed to get quick answer: Unknown error''"]
      exception_boundary [where w = ?w and p = None and c = demo_call and s = ?s]
      demo_auth m b u n
    by simp
qed

text \<open>
  C7, as stated, fails on the code: a stored value that is the empty string is present in
  the cache, and \<^verbatim>\<open>checkCache\<close> returns \<^verbatim>\<open>null\<close> for it, not the stored value.
\<close>

theorem checkCache_empty_value_counterexample:
  "kv_get_fault (demo_world (ok_response ''2,789 km'') None) ''k'' = None
   \<and> kv (demo_state [''k'' \<mapsto> ('''', 900)] 8) ''k'' = Some ('''', 900)
   \<and> fst (checkCache (demo_world (ok_response ''2,789 km'') None) ''k''
            (demo_state [''k'' \<mapsto> ('''', 900)] 8)) = Inr None"
  by (simp add: checkCache_run demo_world_sel demo_state_sel)

text \<open>
  C7, amended. The cache operations are best-effort and never throw. The read
  \<^verbatim>\<open>checkCache\<close> returns the stored value when it is present and not empty; it returns
  \<^verbatim>\<open>null\<close> on a miss, on a stored empty string and on any error of the storage layer. The
  write \<^verbatim>\<open>storeCache\<close> puts the value with the fixed expiration of 900 seconds and swallows
  any error of the storage layer, in which case the cache is unchanged. The response of a
  tool invocation does not depend on whether writes to the cache fail.
\<close>

theorem cache_best_effort:
  "(kv_get_fault w k = None \<and> kv s k = Some (c, ttl) \<and> c \<noteq> [] \<longrightarrow>
      fst (checkCache w k s) = Inr (Some c))
   \<and> (kv_get_fault w k = None \<and> kv s k = Some ([], ttl) \<longrightarrow> fst (checkCache w k s) = Inr None)
   \<and> (kv_get_fault w k = None \<and> kv s k = None \<longrightarrow> fst (checkCache w k s) = Inr None)
   \<and> (kv_get_fault w k = Some e \<longrightarrow> fst (checkCache w k s) = Inr None)
   \<and> (\<exists>r. fst (checkCache w k s) = Inr r)
   \<and> snd (checkCache w k s) = s\<lparr>trace := trace s @ [EvCacheGet k]\<rparr>
   \<and> fst (storeCache w k v s) = Inr ()
   \<and> new_events s (snd (storeCache w k v s)) = [EvCachePut k v 900]
   \<and> db (snd (storeCache w k v s)) = db s
   \<and> (kv_put_fault w k v = None \<longrightarrow> kv (snd (storeCache w k v s)) = (kv s)(k \<mapsto> (v, 900)))
   \<and> (kv_put_fault w k v = Some e' \<longrightarrow> kv (snd (storeCache w k v s)) = kv s)
   \<and> fst (invoke (w\<lparr>kv_put_fault := f\<rparr>) p call s) = fst (invoke w p call s)"
proof -
  have a: "(kv_get_fault w k = None \<and> kv s k = Some (c, ttl) \<and> c \<noteq> [] \<longrightarrow>
      fst (checkCache w k s) = Inr (Some c))
   \<and> (kv_get_fault w k = None \<and> kv s k = Some ([], ttl) \<longrightarrow> fst (checkCache w k s) = Inr None)
   \<and> (kv_get_fault w k = None \<and> kv s k = None \<longrightarrow> fst (checkCache w k s) = Inr None)
   \<and> (kv_get_fault w k = Some e \<longrightarrow> fst (checkCache w k s) = Inr None)
   \<and> (\<exists>r. fst (checkCache w k s) = Inr r)
   \<and> snd (checkCache w k s) = s\<lparr>trace := trace s @ [EvCacheGet k]\<rparr>"
    by (simp add: checkCache_run)
  have b: "fst (storeCache w k v s) = Inr ()
   \<and> new_events s (snd (storeCache w k v s)) = [EvCachePut k v 900]
   \<and> db (snd (storeCache w k v s)) = db s
   \<and> (kv_put_fault w k v = None \<longrightarrow> kv (snd (storeCache w k v s)) = (kv s)(k \<mapsto> (v, 900)))
   \<and> (kv_put_fault w k v = Some e' \<longrightarrow> kv (snd (storeCache w k v s)) = kv s)"
    by (simp add: storeCache_run split: option.splits)
  have cc: "fst (client_call (w\<lparr>kv_put_fault := f\<rparr>) call s) = fst (client_call w call s)"
    by (cases call)
       (simp_all add: getQuickAnswer_def getDetailedAnalysis_def do_fetch_def eff_defs
          quickAnswer_request_def detailedAnalysis_request_def split: sum.splits prod.splits)
  have d: "fst (invoke (w\<lparr>kv_put_fault := f\<rparr>) p call s) = fst (invoke w p call s)"
    by (simp add: invoke_run Let_def cc checkCache_run next_uuid_def
          split: option.splits sum.splits prod.splits)
  from a b d show ?thesis by blast
qed

text \<open>
  An instance: a stored answer is read back, and a write that the storage layer rejects
  leaves the cache as it was.
\<close>

theorem cache_best_effort_witness:
  "kv_get_fault (demo_world (ok_response ''2,789 km'') (Some (JsError ''KV unavailable''))) ''k'' = None
   \<and> kv (demo_state [''k'' \<mapsto> (''2,789 km'', 900)] 8) ''k'' = Some (''2,789 km'', 900)
   \<and> ''2,789 km'' \<noteq> []
   \<and> fst (checkCache (demo_world (ok_response ''2,789 km'') (Some (JsError ''KV unavailable''))) ''k''
            (demo_state [''k'' \<mapsto> (''2,789 km'', 900)] 8)) = Inr (Some ''2,789 km'')
   \<and> kv_put_fault (demo_world (ok_response ''2,789 km'') (Some (JsError ''KV unavailable''))) ''k'' ''v''
        = Some (JsError ''KV unavailable'')
   \<and> fst (storeCache (demo_world (ok_response ''2,789 km'') (Some (JsError ''KV unavailable''))) ''k'' ''v''
            (demo_state [''k'' \<mapsto> (''2,789 km'', 900)] 8)) = Inr ()
   \<and> kv (snd (storeCache (demo_world (ok_response ''2,789 km'') (Some (JsError ''KV unavailable''))) ''k'' ''v''
            (demo_state [''k'' \<mapsto> (''2,789 km'', 900)] 8))) = [''k'' \<mapsto> (''2,789 km'', 900)]"
  using cache_best_effort [where w = "demo_world (ok_response ''2,789 km'') (Some (JsError ''KV unavailable''))"
      and k = "''k''" and s = "demo_state [''k'' \<mapsto> (''2,789 km'', 900)] 8"
      and c = "''2,789 km''" and ttl = 900 and v = "''v''" and e' = "JsError ''KV unavailable''"]
  by (simp add: demo_world_sel demo_state_sel)

text \<open>
  C8. For every call of the client's \<^verbatim>\<open>getQuickAnswer\<close> that gets a response: status 501
  yields the error that the query could not be interpreted, 400 the error of an invalid
  query format, 403 the error of an invalid AppID, and any other status outside 200..299
  an error that carries the status and its text; the four messages are pairwise distinct
  (each is thrown again with the prefix of the method). For a status in 200..299 whose
  body can be read, the method returns the body with the white space at both ends removed.
\<close>

theorem quick_answer_status_mapping:
  assumes "fetch w (quickAnswer_request w q u) = Inr resp"
  shows "(status resp = 501 \<longrightarrow> fst (getQuickAnswer w q u s) =
            Inl (JsError (''Failed to get quick answer: '' @
              ''WolframAlpha could not interpret the query. Please rephrase or check spelling.'')))
       \<and> (status resp = 400 \<longrightarrow> fst (getQuickAnswer w q u s) =
            Inl (JsError (''Failed to get quick answer: '' @
              ''Invalid query format. Please check your input.'')))
       \<and> (status resp = 403 \<longrightarrow> fst (getQuickAnswer w q u s) =
            Inl (JsError (''Failed to get quick answer: '' @
              ''Invalid WolframAlpha AppID. Please check configuration.'')))
       \<and> (status resp \<notin> {501, 400, 403} \<and> \<not> (200 \<le> status resp \<and> status resp \<le> 299) \<longrightarrow>
            fst (getQuickAnswer w q u s) =
            Inl (JsError (''Failed to get quick answer: '' @ ''WolframAlpha API error: '' @
              number_toString (status resp) @ '' '' @ statusText resp)))
       \<and> distinct
            [''Failed to get quick answer: '' @
               ''WolframAlpha could not interpret the query. Please rephrase or check spelling.'',
             ''Failed to get quick answer: '' @ ''Invalid query format. Please check your input.'',
             ''Failed to get quick answer: '' @
               ''Invalid WolframAlpha AppID. Please check configuration.'',
             ''Failed to get quick answer: '' @ ''WolframAlpha API error: '' @
               number_toString (status resp) @ '' '' @ statusText resp]
       \<and> (200 \<le> status resp \<and> status resp \<le> 299 \<longrightarrow>
            (\<forall>b. body resp = Inr b \<longrightarrow>
               fst (getQuickAnswer w q u s) = Inr (js_trim b)
               \<and> (\<exists>pre post. b = pre @ js_trim b @ post
                     \<and> (\<forall>x \<in> set pre. js_whitespace x) \<and> (\<forall>x \<in> set post. js_whitespace x))
               \<and> (js_trim b \<noteq> [] \<longrightarrow>
                     \<not> js_whitespace (hd (js_trim b)) \<and> \<not> js_whitespace (last (js_trim b)))))"
proof -
  have m: "fst (getQuickAnswer w q u s) =
          (if status resp = 501 then Inl (JsError (''Failed to get quick answer: '' @ uninterpretable_msg))
          else if status resp = 400 then Inl (JsError (''Failed to get quick answer: '' @ invalid_format_msg))
          else if status resp = 403 then Inl (JsError (''Failed to get quick answer: '' @ invalid_appid_msg))
          else if \<not> response_ok resp then Inl (JsError (''Failed to get quick answer: '' @ api_error_msg resp))
          else (case body resp of
                  Inl e \<Rightarrow> Inl (JsError (''Failed to get quick answer: '' @ message_or_unknown e))
                | Inr b \<Rightarrow> Inr (js_trim b)))"
    by (simp add: getQuickAnswer_fst assms)
  have a: "status resp = 501 \<longrightarrow> fst (getQuickAnswer w q u s) =
            Inl (JsError (''Failed to get quick answer: '' @
              ''WolframAlpha could not interpret the query. Please rephrase or check spelling.''))"
    by (simp add: m uninterpretable_msg_def)
  have b: "status resp = 400 \<longrightarrow> fst (getQuickAnswer w q u s) =
            Inl (JsError (''Failed to get quick answer: '' @
              ''Invalid query format. Please check your input.''))"
    by (simp add: m invalid_format_msg_def)
  have c: "status resp = 403 \<longrightarrow> fst (getQuickAnswer w q u s) =
            Inl (JsError (''Failed to get quick answer: '' @
              ''Invalid WolframAlpha AppID. Please check configuration.''))"
    by (simp add: m invalid_appid_msg_def)
  have d: "status resp \<notin> {501, 400, 403} \<and> \<not> (200 \<le> status resp \<and> status resp \<le> 299) \<longrightarrow>
            fst (getQuickAnswer w q u s) =
            Inl (JsError (''Failed to get quick answer: '' @ ''WolframAlpha API error: '' @
              number_toString (status resp) @ '' '' @ statusText resp))"
    by (simp add: m api_error_msg_def response_ok_def)
  have e: "distinct
            [''Failed to get quick answer: '' @
               ''WolframAlpha could not interpret the query. Please rephrase or check spelling.'',
             ''Failed to get quick answer: '' @ ''Invalid query format. Please check your input.'',
             ''Failed to get quick answer: '' @
               ''Invalid WolframAlpha AppID. Please check configuration.'',
             ''Failed to get quick answer: '' @ ''WolframAlpha API error: '' @
               number_toString (status resp) @ '' '' @ statusText resp]"
    by simp
  have f: "200 \<le> status resp \<and> status resp \<le> 299 \<longrightarrow>
            (\<forall>b. body resp = Inr b \<longrightarrow>
               fst (getQuickAnswer w q u s) = Inr (js_trim b)
               \<and> (\<exists>pre post. b = pre @ js_trim b @ post
                     \<and> (\<forall>x \<in> set pre. js_whitespace x) \<and> (\<forall>x \<in> set post. js_whitespace x))
               \<and> (js_trim b \<noteq> [] \<longrightarrow>
                     \<not> js_whitespace (hd (js_trim b)) \<and> \<not> js_whitespace (last (js_trim b))))"
    using js_trim_decompose js_trim_ends by (auto simp add: m response_ok_def)
  from a b c d e f show ?thesis by blast
qed

text \<open>
  Two instances: a response with status 200 whose body has white space around the
  answer, and a response with status 501.
\<close>

theorem quick_answer_status_mapping_witness:
  "fetch (demo_world (ok_response ''  2,789 km '') None)
      (quickAnswer_request (demo_world (ok_response ''  2,789 km '') None) ''distance from LA to NY'' (Some ''metric''))
     = Inr \<lparr>status = 200, statusText = ''OK'', body = Inr ''  2,789 km ''\<rparr>
   \<and> fst (getQuickAnswer (demo_world (ok_response ''  2,789 km '') None) ''distance from LA to NY''
           (Some ''metric'') (demo_state Map.empty 10)) = Inr ''2,789 km''
   \<and> fetch (demo_world (Inr \<lparr>status = 501, statusText = ''Not Implemented'', body = Inr ''''\<rparr>) None)
      (quickAnswer_request (demo_world (Inr \<lparr>status = 501, statusText = ''Not Implemented'', body = Inr ''''\<rparr>) None)
         ''asdf qwer'' None)
     = Inr \<lparr>status = 501, statusText = ''Not Implemented'', body = Inr ''''\<rparr>
   \<and> fst (getQuickAnswer (demo_world (Inr \<lparr>status = 501, statusText = ''Not Implemented'', body = Inr ''''\<rparr>) None)
           ''asdf qwer'' None (demo_state Map.empty 10)) =
       Inl (JsError (''Failed to get quick answer: '' @
              ''WolframAlpha could not interpret the query. Please rephrase or check spelling.''))"
proof -
  let ?w = "demo_world (ok_response ''  2,789 km '') None"
  let ?r = "\<lparr>status = 501, statusText = ''Not Implemented'', body = Inr ''''\<rparr>"
  let ?v = "demo_world (Inr ?r) None"
  have h1: "fetch ?w (quickAnswer_request ?w ''distance from LA to NY'' (Some ''metric''))
     = Inr \<lparr>status = 200, statusText = ''OK'', body = Inr ''  2,789 km ''\<rparr>"
    by (simp add: demo_world_sel ok_response_def)
  have h2: "fetch ?v (quickAnswer_request ?v ''asdf qwer'' None) = Inr ?r"
    by (simp add: demo_world_sel)
  have t: "js_trim ''  2,789 km '' = ''2,789 km''"
    by (simp add: js_trim_def js_whitespace_def)
  show ?thesis
    using quick_answer_status_mapping [OF h1, of "demo_state Map.empty 10"]
      quick_answer_status_mapping [OF h2, of "demo_state Map.empty 10"] h1 h2
    by (simp add: t)
qed

text \<open>
  C9, as stated, fails on the code. The handlers append the optional argument to the query
  with nothing between them, so the key of the query \<^verbatim>\<open>distance from LA to NY\<close> with
  metric units ends in \<^verbatim>\<open>NYmetric\<close>, not in \<^verbatim>\<open>NY metric\<close>; two different argument pairs
  of one tool have the same key; and \<^verbatim>\<open>getCacheKey\<close> maps two different pairs of a
  tool name and a query to one key when a name contains a colon.
\<close>

theorem cache_key_counterexample:
  "cache_key (QuickAnswerCall ''distance from LA to NY'' (Some Metric))
     \<noteq> ''wolfram:getQuickAnswer:distance from LA to NY metric''
   \<and> QuickAnswerCall ''xmetric'' None \<noteq> QuickAnswerCall ''x'' (Some Metric)
   \<and> cache_key (QuickAnswerCall ''xmetric'' None) = cache_key (QuickAnswerCall ''x'' (Some Metric))
   \<and> (''a:b'', ''c'') \<noteq> (''a'', ''b:c'')
   \<and> getCacheKey ''a:b'' ''c'' = getCacheKey ''a'' ''b:c''"
  by (simp add: cache_key_def getCacheKey_def units_or_empty_def truthy_def)

text \<open>
  C9, amended. The cache key is the deterministic composition \<^verbatim>\<open>wolfram:{toolName}:{query}\<close>,
  where for the handlers the query part is the query string directly followed by the
  optional argument (the units, or the decimal character limit). For a fixed tool name
  the key determines the query part, and keys of different tools never coincide. For
  \<^verbatim>\<open>getQuickAnswer\<close> with the query \<^verbatim>\<open>distance from LA to NY\<close> and metric units the key is
  \<^verbatim>\<open>wolfram:getQuickAnswer:distance from LA to NYmetric\<close>.
\<close>

theorem cache_key_composition:
  "getCacheKey toolName query = ''wolfram:'' @ toolName @ '':'' @ query
   \<and> cache_key (QuickAnswerCall q u) =
        ''wolfram:getQuickAnswer:'' @ q @ (case u of Some x \<Rightarrow> units_string x | None \<Rightarrow> [])
   \<and> cache_key (DetailedAnalysisCall q m) =
        ''wolfram:getDetailedAnalysis:'' @ q @
          (case m of Some n \<Rightarrow> if n = 0 then [] else number_toString n | None \<Rightarrow> [])
   \<and> (getCacheKey toolName query = getCacheKey toolName query' \<longrightarrow> query = query')
   \<and> (tool_name c \<noteq> tool_name c' \<longrightarrow> cache_key c \<noteq> cache_key c')
   \<and> cache_key (QuickAnswerCall ''distance from LA to NY'' (Some Metric)) =
        ''wolfram:getQuickAnswer:distance from LA to NYmetric''"
proof -
  have a: "getCacheKey toolName query = getCacheKey toolName query' \<longrightarrow> query = query'"
    by (simp add: getCacheKey_def)
  have b: "tool_name c \<noteq> tool_name c' \<longrightarrow> cache_key c \<noteq> cache_key c'"
    by (cases c; cases c') (simp_all add: cache_key_def getCacheKey_def)
  have d: "cache_key (QuickAnswerCall q u) =
        ''wolfram:getQuickAnswer:'' @ q @ (case u of Some x \<Rightarrow> units_string x | None \<Rightarrow> [])"
    by (cases u; cases "the u") (simp_all add: cache_key_def getCacheKey_def units_or_empty_def truthy_def)
  have e: "cache_key (DetailedAnalysisCall q m) =
        ''wolfram:getDetailedAnalysis:'' @ q @
          (case m of Some n \<Rightarrow> if n = 0 then [] else number_toString n | None \<Rightarrow> [])"
    by (simp add: cache_key_def getCacheKey_def maxchars_or_empty_def split: option.splits)
  show ?thesis using a b d e
    by (simp add: demo_key [unfolded demo_call_def] getCacheKey_def)
qed

text \<open>
  An instance: one query for both tools.
\<close>

theorem cache_key_composition_witness:
  "getCacheKey ''getQuickAnswer'' ''pi'' = getCacheKey ''getQuickAnswer'' ''pi''
   \<and> tool_name (QuickAnswerCall ''pi'' None) \<noteq> tool_name (DetailedAnalysisCall ''pi'' None)
   \<and> cache_key (QuickAnswerCall ''pi'' None) \<noteq> cache_key (DetailedAnalysisCall ''pi'' None)"
  using cache_key_composition [where toolName = "''getQuickAnswer''" and query = "''pi''"
          and query' = "''pi''" and c = "QuickAnswerCall ''pi'' None"
          and c' = "DetailedAnalysisCall ''pi'' None"]
  by simp




end
